theory Spec2Isabelle
  imports Complex_Main
begin

section \<open>Values shared by the monitoring pipeline\<close>

text \<open>
  The service is a Python program (\<^verbatim>\<open>main.py\<close>). Its dictionaries with a fixed set of
  keys are records here, Python's \<^verbatim>\<open>None\<close> is \<open>None\<close> of an option type, an
  exception that a function raises is the \<open>Inl\<close> of a sum type, and the network, the
  clock and the store, which the program reaches through libraries, are explicit
  arguments and explicit state.
\<close>

text \<open>JSON values, as \<^verbatim>\<open>response.json()\<close> and \<^verbatim>\<open>json.loads\<close> return them.\<close>

datatype json =
    JNull
  | JBool bool
  | JNum int
  | JStr string
  | JArr "json list"
  | JObj "(string \<times> json) list"

text \<open>
  The exceptions the probe path distinguishes: \<^verbatim>\<open>httpx.TimeoutException\<close> and every
  other subclass of \<^verbatim>\<open>Exception\<close> (a refused connection, an undecodable body, an
  attribute error). The string is \<^verbatim>\<open>str(e)\<close>.
\<close>

datatype exn = TimeoutException string | OtherException string

fun str_exn :: "exn \<Rightarrow> string" where
  "str_exn (TimeoutException m) = m"
| "str_exn (OtherException m) = m"

text \<open>The four values the program writes into the \<^verbatim>\<open>status\<close> field.\<close>

datatype status = Healthy | Unhealthy | Timeout | Error

text \<open>Decimal printing of an integer, as an f-string does it.\<close>

fun str_nat :: "nat \<Rightarrow> string" where
  "str_nat n =
     (if n < 10 then [''0123456789'' ! n]
      else str_nat (n div 10) @ [''0123456789'' ! (n mod 10)])"

declare str_nat.simps [simp del]

definition str_int :: "int \<Rightarrow> string" where
  "str_int i = (if i < 0 then CHR ''-'' # str_nat (nat (- i)) else str_nat (nat i))"

text \<open>
  Python's \<^verbatim>\<open>round(x, n)\<close> rounds to the nearest multiple of \<open>10^-n\<close>, a tie going to
  the even neighbour. The model rounds the real number; the program rounds the float next
  to it.
\<close>

definition round_half_even :: "real \<Rightarrow> int" where
  "round_half_even x =
     (let f = \<lfloor>x\<rfloor>; d = x - of_int f
      in if d < 1 / 2 then f
         else if 1 / 2 < d then f + 1
         else if even f then f else f + 1)"

definition py_round :: "real \<Rightarrow> nat \<Rightarrow> real" where
  "py_round x n = of_int (round_half_even (x * 10 ^ n)) / 10 ^ n"


section \<open>Probe executor\<close>

text \<open>An entry of \<^verbatim>\<open>SYSTEMS\<close>: the URL comes from the environment and may be unset.\<close>

record system_info =
  name :: string
  url :: "string option"
  endpoint :: "string option"
  description :: string
  check_interval :: nat
  priority :: string

text \<open>What \<^verbatim>\<open>client.get\<close> hands back: the status code, and what \<^verbatim>\<open>response.json()\<close>
  will do when called (return the decoded body, or raise).\<close>

record response =
  status_code :: int
  response_json :: "exn + json"

text \<open>
  One HTTP exchange as the network decides it: it raises or it returns a response, after
  some time (microseconds, the resolution of \<^verbatim>\<open>datetime\<close>).
\<close>

record attempt =
  outcome :: "exn + response"
  duration :: nat

text \<open>The network answers the \<open>n\<close>-th GET of a probe to a URL.\<close>

type_synonym network = "string \<Rightarrow> nat \<Rightarrow> attempt"

text \<open>
  The part of the world a probe touches: the clock (microseconds), the number of GETs it
  has issued, and the delays (seconds) it has slept, in order.
\<close>

record world =
  clock :: nat
  attempts :: nat
  sleeps :: "nat list"

text \<open>The dictionary \<^verbatim>\<open>check_system_health\<close> returns.\<close>

record health_data =
  system_name :: string
  status :: status
  response_time_ms :: "real option"
  last_check :: nat
  error_message :: "string option"
  metadata :: json

definition rstrip :: "char \<Rightarrow> string \<Rightarrow> string" where
  "rstrip c s = rev (dropWhile (\<lambda>x. x = c) (rev s))"

definition asyncio_sleep :: "nat \<Rightarrow> world \<Rightarrow> world" where
  "asyncio_sleep delay w =
     w\<lparr>clock := clock w + delay * 1000000, sleeps := sleeps w @ [delay]\<rparr>"

text \<open>
  \<^verbatim>\<open>attempt_check\<close>: with no URL configured, \<^verbatim>\<open>system_info['url'].rstrip\<close> raises before
  any request is sent.
\<close>

definition attempt_check :: "network \<Rightarrow> system_info \<Rightarrow> world \<Rightarrow> (exn + response) \<times> world" where
  "attempt_check net info w =
     (case url info of
        None \<Rightarrow>
          (Inl (OtherException ''AttributeError: NoneType object has no attribute rstrip''), w)
      | Some u \<Rightarrow>
          (let base_url = rstrip CHR ''/'' u;
               ep = (case endpoint info of None \<Rightarrow> ''/api/status'' | Some e \<Rightarrow> e);
               a = net (base_url @ ep) (attempts w)
           in (outcome a, w\<lparr>clock := clock w + duration a, attempts := Suc (attempts w)\<rparr>)))"

text \<open>
  \<^verbatim>\<open>retry_with_backoff\<close>: the \<^verbatim>\<open>for attempt in range(max_retries)\<close> loop, from the
  index \<open>attempt\<close> on. A call that returns ends the loop; a call that raises either
  re-raises (on the last index) or sleeps \<open>base_delay * 2 ^ attempt\<close> and goes on. A loop
  that runs out returns \<^verbatim>\<open>None\<close>.
\<close>

function retry_loop ::
  "(world \<Rightarrow> (exn + 'a) \<times> world) \<Rightarrow> nat \<Rightarrow> nat \<Rightarrow> nat \<Rightarrow> world \<Rightarrow> (exn + 'a option) \<times> world" where
  "retry_loop func max_retries base_delay attempt w =
     (if attempt < max_retries then
        (case func w of
           (Inr r, w') \<Rightarrow> (Inr (Some r), w')
         | (Inl e, w') \<Rightarrow>
             if attempt = max_retries - 1 then (Inl e, w')
             else retry_loop func max_retries base_delay (Suc attempt)
                    (asyncio_sleep (base_delay * 2 ^ attempt) w'))
      else (Inr None, w))"
  by pat_completeness auto
termination
  by (relation "measure (\<lambda>(func, max_retries, base_delay, attempt, w). max_retries - attempt)") auto

declare retry_loop.simps [simp del]

definition retry_with_backoff ::
  "(world \<Rightarrow> (exn + 'a) \<times> world) \<Rightarrow> nat \<Rightarrow> nat \<Rightarrow> world \<Rightarrow> (exn + 'a option) \<times> world" where
  "retry_with_backoff func max_retries base_delay w = retry_loop func max_retries base_delay 0 w"

text \<open>The body of the \<^verbatim>\<open>try\<close> block of \<^verbatim>\<open>check_system_health\<close>.\<close>

definition check_body ::
  "string \<Rightarrow> system_info \<Rightarrow> network \<Rightarrow> world \<Rightarrow> (exn + health_data) \<times> world" where
  "check_body system_key info net w =
     (let start_time = clock w
      in case retry_with_backoff (attempt_check net info) 2 1 w of
           (Inl e, w') \<Rightarrow> (Inl e, w')
         | (Inr None, w') \<Rightarrow>
             (Inl (OtherException ''AttributeError: NoneType object has no attribute status_code''), w')
         | (Inr (Some resp), w') \<Rightarrow>
             (let response_time = real (clock w' - start_time) / 1000
              in if status_code resp = 200 then
                   (case response_json resp of
                      Inl e \<Rightarrow> (Inl e, w')
                    | Inr data \<Rightarrow>
                        (Inr \<lparr>system_name = system_key, status = Healthy,
                              response_time_ms = Some (py_round response_time 2),
                              last_check = clock w', error_message = None,
                              metadata = data\<rparr>, w'))
                 else
                   (Inr \<lparr>system_name = system_key, status = Unhealthy,
                         response_time_ms = Some (py_round response_time 2),
                         last_check = clock w',
                         error_message = Some (''HTTP '' @ str_int (status_code resp)),
                         metadata = JObj [(''status_code'', JNum (status_code resp))]\<rparr>, w')))"

text \<open>
  \<^verbatim>\<open>check_system_health\<close>: the \<^verbatim>\<open>try\<close> block with its two handlers, the one for
  \<^verbatim>\<open>httpx.TimeoutException\<close> first.
\<close>

definition check_system_health ::
  "string \<Rightarrow> system_info \<Rightarrow> network \<Rightarrow> world \<Rightarrow> (exn + health_data) \<times> world" where
  "check_system_health system_key info net w =
     (case check_body system_key info net w of
        (Inr r, w') \<Rightarrow> (Inr r, w')
      | (Inl (TimeoutException m), w') \<Rightarrow>
          (Inr \<lparr>system_name = system_key, status = Timeout, response_time_ms = None,
                last_check = clock w',
                error_message = Some ''Request timeout after retries'',
                metadata = JObj []\<rparr>, w')
      | (Inl (OtherException m), w') \<Rightarrow>
          (Inr \<lparr>system_name = system_key, status = Error, response_time_ms = None,
                last_check = clock w', error_message = Some m,
                metadata = JObj []\<rparr>, w'))"


text \<open>The URL a probe of a configured system requests (the empty string when none is
  configured); used to state what the network answers.\<close>

definition probe_url :: "system_info \<Rightarrow> string" where
  "probe_url info =
     (case url info of
        None \<Rightarrow> []
      | Some u \<Rightarrow>
          rstrip CHR ''/'' u @ (case endpoint info of None \<Rightarrow> ''/api/status'' | Some e \<Rightarrow> e))"

text \<open>
  \<^verbatim>\<open>SYSTEMS\<close>, in the order of the dictionary literal. The URLs are read from the
  environment, which is the argument.
\<close>

definition SYSTEMS :: "(string \<Rightarrow> string option) \<Rightarrow> (string \<times> system_info) list" where
  "SYSTEMS getenv =
     [(''story_grid_pro'',
        \<lparr>name = ''Story Grid Pro'', url = getenv ''STORY_GRID_PRO_URL'',
         endpoint = Some ''/api/status'',
         description = ''Production planning and module hub'',
         check_interval = 300, priority = ''high''\<rparr>),
      (''iaj_social_main'',
        \<lparr>name = ''IAJ Social Main'', url = getenv ''IAJ_SOCIAL_BASE_URL'',
         endpoint = Some ''/api/status'',
         description = ''Main IAJ Social application'',
         check_interval = 300, priority = ''high''\<rparr>),
      (''agent_training'',
        \<lparr>name = ''Agent Training'', url = getenv ''IAJ_SOCIAL_BASE_URL'',
         endpoint = Some ''/api/agent-training/status'',
         description = ''AI agent training module'',
         check_interval = 600, priority = ''medium''\<rparr>),
      (''video_processor'',
        \<lparr>name = ''Video Processor'', url = getenv ''IAJ_SOCIAL_BASE_URL'',
         endpoint = Some ''/api/video-processor/status'',
         description = ''Video processing module'',
         check_interval = 600, priority = ''medium''\<rparr>),
      (''social_studio'',
        \<lparr>name = ''Social Studio'', url = getenv ''IAJ_SOCIAL_BASE_URL'',
         endpoint = Some ''/api/social-studio/status'',
         description = ''AI content creation module'',
         check_interval = 600, priority = ''medium''\<rparr>),
      (''batch_studio'',
        \<lparr>name = ''Batch Studio'', url = getenv ''IAJ_SOCIAL_BASE_URL'',
         endpoint = Some ''/api/social-studio/batch/status'',
         description = ''Batch content processing module'',
         check_interval = 600, priority = ''medium''\<rparr>)]"


section \<open>Result cache\<close>

text \<open>
  An entry of the global \<^verbatim>\<open>CACHE\<close> dictionary. \<^verbatim>\<open>data\<close> and \<^verbatim>\<open>timestamp\<close> start as
  \<^verbatim>\<open>None\<close>; the timestamp is a reading of \<^verbatim>\<open>time.time()\<close>, seconds as a float, taken
  as a real number here.
\<close>

record 'v cache_entry =
  data :: "'v option"
  timestamp :: "real option"
  ttl :: int

type_synonym 'v cache = "string \<rightharpoonup> 'v cache_entry"

definition CACHE :: "'v cache" where
  "CACHE =
     [''health_overview'' \<mapsto> \<lparr>data = None, timestamp = None, ttl = 60\<rparr>,
      ''recommendations'' \<mapsto> \<lparr>data = None, timestamp = None, ttl = 300\<rparr>]"

text \<open>
  The test at the head of the wrapper of \<^verbatim>\<open>cached\<close>: the entry exists, its data is not
  \<^verbatim>\<open>None\<close>, its timestamp is truthy (neither \<^verbatim>\<open>None\<close> nor zero) and younger than
  the ttl. The result is the data to return on a hit.
\<close>

definition cache_hit :: "'v cache \<Rightarrow> string \<Rightarrow> int \<Rightarrow> real \<Rightarrow> 'v option" where
  "cache_hit C cache_key ttl' now =
     (case C cache_key of
        None \<Rightarrow> None
      | Some cache_entry \<Rightarrow>
          (case data cache_entry of
             None \<Rightarrow> None
           | Some v \<Rightarrow>
               (case timestamp cache_entry of
                  None \<Rightarrow> None
                | Some t \<Rightarrow> if t \<noteq> 0 \<and> now - t < real_of_int ttl' then Some v else None)))"

text \<open>
  The wrapper that \<^verbatim>\<open>cached(cache_key, ttl)\<close> puts around \<^verbatim>\<open>func\<close>. \<open>now\<close> is the
  reading of \<^verbatim>\<open>time.time()\<close> at the call. \<^verbatim>\<open>func\<close> runs on a state of its own, may
  raise, and may return \<^verbatim>\<open>None\<close>; when it raises nothing is stored.
\<close>

definition cached ::
  "string \<Rightarrow> int \<Rightarrow> ('s \<Rightarrow> (exn + 'v option) \<times> 's) \<Rightarrow> real \<Rightarrow> 's \<Rightarrow> 'v cache
     \<Rightarrow> (exn + 'v option) \<times> 's \<times> 'v cache" where
  "cached cache_key ttl' func now s C =
     (case cache_hit C cache_key ttl' now of
        Some v \<Rightarrow> (Inr (Some v), s, C)
      | None \<Rightarrow>
          (case func s of
             (Inl e, s') \<Rightarrow> (Inl e, s', C)
           | (Inr result, s') \<Rightarrow>
               (Inr result, s',
                C(cache_key \<mapsto> \<lparr>data = result, timestamp = Some now, ttl = ttl'\<rparr>))))"

text \<open>The statement \<^verbatim>\<open>CACHE[key]["data"] = None\<close>; a key that is not there raises.\<close>

definition invalidate :: "string \<Rightarrow> 'v cache \<Rightarrow> exn + 'v cache" where
  "invalidate cache_key C =
     (case C cache_key of
        None \<Rightarrow> Inl (OtherException ''KeyError'')
      | Some cache_entry \<Rightarrow> Inr (C(cache_key \<mapsto> cache_entry\<lparr>data := None\<rparr>)))"



section \<open>The store\<close>

text \<open>
  Modelled from the spec: the tables of the external store (Supabase) are not declared in
  the source. A row of \<^verbatim>\<open>system_health\<close> is the inserted dictionary together with the
  two columns the store fills in, a strictly increasing record identity \<^verbatim>\<open>id\<close> and the
  creation time \<^verbatim>\<open>created_at\<close>. Every call to the store may raise; an oracle on the number
  of calls made so far decides which do (with no client configured, every one does).
\<close>

record health_row = health_data +
  row_id :: int
  created_at :: nat

record workflow_event =
  event_type :: string
  source_system :: string
  target_system :: string
  event_status :: string
  payload :: health_data
  event_created_at :: nat

record store =
  system_health :: "health_row list"
  workflow_events :: "workflow_event list"
  next_id :: int
  calls :: nat

text \<open>One call to the store is made: whether it goes through, and the call counted.\<close>

definition store_call :: "(nat \<Rightarrow> bool) \<Rightarrow> store \<Rightarrow> bool \<times> store" where
  "store_call fails st = (\<not> fails (calls st), st\<lparr>calls := Suc (calls st)\<rparr>)"

definition insert_system_health ::
  "(nat \<Rightarrow> bool) \<Rightarrow> nat \<Rightarrow> health_data \<Rightarrow> store \<Rightarrow> bool \<times> store" where
  "insert_system_health fails now h st =
     (case store_call fails st of
        (False, st') \<Rightarrow> (False, st')
      | (True, st') \<Rightarrow>
          (True, st'\<lparr>system_health := system_health st' @
                       [\<lparr>system_name = system_name h, status = status h,
                         response_time_ms = response_time_ms h, last_check = last_check h,
                         error_message = error_message h, metadata = metadata h,
                         row_id = next_id st', created_at = now\<rparr>],
                     next_id := next_id st' + 1\<rparr>))"

definition insert_workflow_event ::
  "(nat \<Rightarrow> bool) \<Rightarrow> workflow_event \<Rightarrow> store \<Rightarrow> bool \<times> store" where
  "insert_workflow_event fails ev st =
     (case store_call fails st of
        (False, st') \<Rightarrow> (False, st')
      | (True, st') \<Rightarrow> (True, st'\<lparr>workflow_events := workflow_events st' @ [ev]\<rparr>))"


section \<open>Fan-out runner\<close>

text \<open>
  The body of the \<^verbatim>\<open>try\<close> in the loop of \<^verbatim>\<open>run_health_checks\<close> for one result: insert
  the row, clear the cached overview, and insert an alert event when the status is not
  healthy. An exception at any of the three statements leaves the rest undone and is
  logged.
\<close>

definition store_one ::
  "(nat \<Rightarrow> bool) \<Rightarrow> nat \<Rightarrow> health_data \<Rightarrow> store \<times> 'v cache \<Rightarrow> store \<times> 'v cache" where
  "store_one fails now h sc =
     (case insert_system_health fails now h (fst sc) of
        (False, st1) \<Rightarrow> (st1, snd sc)
      | (True, st1) \<Rightarrow>
          (case invalidate ''health_overview'' (snd sc) of
             Inl e \<Rightarrow> (st1, snd sc)
           | Inr C1 \<Rightarrow>
               if status h \<noteq> Healthy then
                 (snd (insert_workflow_event fails
                    \<lparr>event_type = ''system_health_alert'', source_system = ''management_hub'',
                     target_system = system_name h, event_status = ''completed'',
                     payload = h, event_created_at = now\<rparr> st1), C1)
               else (st1, C1)))"

text \<open>The loop over the gathered results; a result that is an exception is skipped.\<close>

fun store_results ::
  "(nat \<Rightarrow> bool) \<Rightarrow> nat \<Rightarrow> (exn + health_data) list \<Rightarrow> store \<times> 'v cache \<Rightarrow> store \<times> 'v cache" where
  "store_results fails now [] sc = sc"
| "store_results fails now (Inl e # results) sc = store_results fails now results sc"
| "store_results fails now (Inr h # results) sc =
     store_results fails now results (store_one fails now h sc)"

text \<open>
  \<^verbatim>\<open>run_health_checks\<close>. The probes of a batch run concurrently: each starts from the
  same world and talks to its own target, and \<^verbatim>\<open>asyncio.gather\<close> returns their results
  in the order of the targets, when the slowest has ended.
\<close>

definition run_health_checks ::
  "(nat \<Rightarrow> bool) \<Rightarrow> (string \<Rightarrow> network) \<Rightarrow> (string \<times> system_info) list \<Rightarrow> world
     \<Rightarrow> store \<times> 'v cache \<Rightarrow> store \<times> 'v cache" where
  "run_health_checks fails nets systems w sc =
     (let tasks = map (\<lambda>(system_key, info). check_system_health system_key info (nets system_key) w)
                    systems;
          results = map fst tasks;
          now = fold max (map (\<lambda>t. clock (snd t)) tasks) (clock w)
      in store_results fails now results sc)"

definition check_high_priority_systems ::
  "(string \<Rightarrow> string option) \<Rightarrow> (nat \<Rightarrow> bool) \<Rightarrow> (string \<Rightarrow> network) \<Rightarrow> world
     \<Rightarrow> store \<times> 'v cache \<Rightarrow> store \<times> 'v cache" where
  "check_high_priority_systems getenv fails nets w sc =
     run_health_checks fails nets
       (filter (\<lambda>(k, v). priority v = ''high'') (SYSTEMS getenv)) w sc"

definition check_medium_priority_systems ::
  "(string \<Rightarrow> string option) \<Rightarrow> (nat \<Rightarrow> bool) \<Rightarrow> (string \<Rightarrow> network) \<Rightarrow> world
     \<Rightarrow> store \<times> 'v cache \<Rightarrow> store \<times> 'v cache" where
  "check_medium_priority_systems getenv fails nets w sc =
     run_health_checks fails nets
       (filter (\<lambda>(k, v). priority v = ''medium'') (SYSTEMS getenv)) w sc"

definition check_all_systems ::
  "(string \<Rightarrow> string option) \<Rightarrow> (nat \<Rightarrow> bool) \<Rightarrow> (string \<Rightarrow> network) \<Rightarrow> world
     \<Rightarrow> store \<times> 'v cache \<Rightarrow> store \<times> 'v cache" where
  "check_all_systems getenv fails nets w sc =
     run_health_checks fails nets (SYSTEMS getenv) w sc"


section \<open>Retention manager\<close>

text \<open>
  The query \<^verbatim>\<open>.order("created_at", desc=True)\<close>. The store leaves the order of rows
  with equal \<^verbatim>\<open>created_at\<close> open; here the later row of the table comes first.
\<close>

definition order_created_at_desc :: "health_row list \<Rightarrow> health_row list" where
  "order_created_at_desc rows = rev (sort_key created_at rows)"

text \<open>
  The body of the loop of \<^verbatim>\<open>cleanup_old_data\<close> for one system: count its rows; above
  1000, read the row at offset 999 of the rows by \<^verbatim>\<open>created_at\<close> descending
  (\<^verbatim>\<open>.limit(1).range(999, 999)\<close>) and delete the system's rows whose \<^verbatim>\<open>id\<close> is below that
  row's. The flag is \<open>False\<close> when a call to the store raised.
\<close>

definition cleanup_system :: "(nat \<Rightarrow> bool) \<Rightarrow> string \<Rightarrow> store \<Rightarrow> bool \<times> store" where
  "cleanup_system fails system_key st =
     (case store_call fails st of
        (False, st1) \<Rightarrow> (False, st1)
      | (True, st1) \<Rightarrow>
          (let total_count = length (filter (\<lambda>r. system_name r = system_key) (system_health st1))
           in if total_count > 1000 then
                (case store_call fails st1 of
                   (False, st2) \<Rightarrow> (False, st2)
                 | (True, st2) \<Rightarrow>
                     (case take 1 (drop 999 (order_created_at_desc
                             (filter (\<lambda>r. system_name r = system_key) (system_health st2)))) of
                        [] \<Rightarrow> (True, st2)
                      | r # _ \<Rightarrow>
                          (let cutoff_id = row_id r
                           in case store_call fails st2 of
                                (False, st3) \<Rightarrow> (False, st3)
                              | (True, st3) \<Rightarrow>
                                  (True, st3\<lparr>system_health :=
                                     filter (\<lambda>x. \<not> (system_name x = system_key \<and> row_id x < cutoff_id))
                                       (system_health st3)\<rparr>))))
              else (True, st1)))"

text \<open>\<^verbatim>\<open>cleanup_old_data\<close>: the loop over the keys of \<^verbatim>\<open>SYSTEMS\<close>, inside one
  \<^verbatim>\<open>try\<close>; an exception ends the sweep.\<close>

fun cleanup_keys :: "(nat \<Rightarrow> bool) \<Rightarrow> string list \<Rightarrow> store \<Rightarrow> store" where
  "cleanup_keys fails [] st = st"
| "cleanup_keys fails (k # ks) st =
     (case cleanup_system fails k st of
        (False, st') \<Rightarrow> st'
      | (True, st') \<Rightarrow> cleanup_keys fails ks st')"

definition cleanup_old_data :: "(string \<Rightarrow> string option) \<Rightarrow> (nat \<Rightarrow> bool) \<Rightarrow> store \<Rightarrow> store" where
  "cleanup_old_data getenv fails st = cleanup_keys fails (map fst (SYSTEMS getenv)) st"



section \<open>Statistics\<close>

text \<open>Python's truth test on an optional string and on an optional number: \<^verbatim>\<open>None\<close>,
  the empty string and zero are false.\<close>

definition truthy_str :: "string option \<Rightarrow> bool" where
  "truthy_str m = (case m of None \<Rightarrow> False | Some s \<Rightarrow> s \<noteq> [])"

definition truthy_num :: "real option \<Rightarrow> bool" where
  "truthy_num v = (case v of None \<Rightarrow> False | Some x \<Rightarrow> x \<noteq> 0)"

subsection \<open>The summary for the recommendation generator\<close>

text \<open>The per-system accumulator of \<^verbatim>\<open>generate_recommendations\<close>.\<close>

record sys_stats =
  total :: nat
  healthy :: nat
  unhealthy :: nat
  errors :: "string list"
  response_times :: "real list"

text \<open>One turn of the loop \<^verbatim>\<open>for record in health_data.data\<close>.\<close>

definition add_record :: "health_row \<Rightarrow> (string \<rightharpoonup> sys_stats) \<Rightarrow> (string \<rightharpoonup> sys_stats)" where
  "add_record r system_stats =
     (let sys_name = system_name r;
          s0 = (case system_stats sys_name of
                  None \<Rightarrow> \<lparr>total = 0, healthy = 0, unhealthy = 0, errors = [], response_times = []\<rparr>
                | Some s \<Rightarrow> s);
          s1 = s0\<lparr>total := total s0 + 1\<rparr>;
          s2 = (if status r = Healthy then s1\<lparr>healthy := healthy s1 + 1\<rparr>
                else (let s = s1\<lparr>unhealthy := unhealthy s1 + 1\<rparr>
                      in if truthy_str (error_message r)
                         then s\<lparr>errors := errors s @ [the (error_message r)]\<rparr> else s));
          s3 = (if truthy_num (response_time_ms r)
                then s2\<lparr>response_times := response_times s2 @ [the (response_time_ms r)]\<rparr>
                else s2)
      in system_stats(sys_name \<mapsto> s3))"

definition system_stats :: "health_row list \<Rightarrow> (string \<rightharpoonup> sys_stats)" where
  "system_stats rows = foldl (\<lambda>m r. add_record r m) Map.empty rows"

text \<open>
  What the second loop writes about one system into the context: the uptime, the average
  response time, the issue count, and the recent errors, a Python \<^verbatim>\<open>set\<close> (the line is
  left out when there are no errors).
\<close>

record summary =
  uptime :: real
  avg_response :: real
  issues :: "nat \<times> nat"
  recent_errors :: "string set option"

definition summarize :: "sys_stats \<Rightarrow> summary" where
  "summarize stats =
     \<lparr>uptime = (if total stats > 0 then real (healthy stats) / real (total stats) * 100 else 0),
      avg_response = (if response_times stats \<noteq> []
                      then sum_list (response_times stats) / real (length (response_times stats))
                      else 0),
      issues = (unhealthy stats, total stats),
      recent_errors = (if errors stats \<noteq> [] then Some (set (take 3 (errors stats))) else None)\<rparr>"

text \<open>The window the generator's summary is computed from: the 200 latest rows.\<close>

definition health_window :: "health_row list \<Rightarrow> health_row list" where
  "health_window rows = take 200 (order_created_at_desc rows)"

definition health_summary :: "health_row list \<Rightarrow> string \<Rightarrow> summary option" where
  "health_summary rows sys_name = map_option summarize (system_stats (health_window rows) sys_name)"

subsection \<open>The performance endpoint\<close>

text \<open>An entry of the answer of \<^verbatim>\<open>get_performance_metrics\<close> (its key \<^verbatim>\<open>name\<close> is
  \<open>metric_name\<close> here).\<close>

record metrics =
  metric_name :: string
  total_checks :: nat
  healthy_checks :: nat
  uptime_24h :: real
  avg_response_time :: "real option"
  min_response_time :: "real option"
  max_response_time :: "real option"

text \<open>The body of the loop for one system, from the rows the store answered with; no rows,
  no entry.\<close>

definition performance_entry :: "system_info \<Rightarrow> health_row list \<Rightarrow> metrics option" where
  "performance_entry info rows =
     (if rows \<noteq> [] then
        (let response_times = map (\<lambda>r. the (response_time_ms r))
                                (filter (\<lambda>r. truthy_num (response_time_ms r)) rows);
             healthy_count = length (filter (\<lambda>r. status r = Healthy) rows)
         in Some \<lparr>metric_name = name info,
                  total_checks = length rows,
                  healthy_checks = healthy_count,
                  uptime_24h = py_round (real healthy_count / real (length rows) * 100) 2,
                  avg_response_time =
                    (if response_times \<noteq> []
                     then Some (py_round (sum_list response_times / real (length response_times)) 2)
                     else None),
                  min_response_time =
                    (if response_times \<noteq> [] then Some (py_round (Min (set response_times)) 2)
                     else None),
                  max_response_time =
                    (if response_times \<noteq> [] then Some (py_round (Max (set response_times)) 2)
                     else None)\<rparr>)
      else None)"

text \<open>The rows of one system of the last 24 hours, latest first (times in microseconds).\<close>

definition last_24h :: "nat \<Rightarrow> string \<Rightarrow> health_row list \<Rightarrow> health_row list" where
  "last_24h now system_key rows =
     order_created_at_desc
       (filter (\<lambda>r. system_name r = system_key \<and> int now - 86400000000 \<le> int (created_at r)) rows)"

definition get_performance_metrics ::
  "(string \<Rightarrow> string option) \<Rightarrow> nat \<Rightarrow> health_row list \<Rightarrow> (string \<times> metrics) list" where
  "get_performance_metrics getenv now rows =
     List.map_filter
       (\<lambda>(system_key, info).
          map_option (\<lambda>m. (system_key, m)) (performance_entry info (last_24h now system_key rows)))
       (SYSTEMS getenv)"


section \<open>The generator's reply\<close>

text \<open>
  \<^verbatim>\<open>re.search\<close> with the pattern for an opening bracket, any characters (greedy),
  a closing bracket: the match runs from the first opening bracket that has a closing
  bracket after it to the last closing bracket.
\<close>

definition search_array :: "string \<Rightarrow> string option" where
  "search_array text =
     (case dropWhile (\<lambda>c. c \<noteq> CHR ''['') text of
        [] \<Rightarrow> None
      | c # rest \<Rightarrow>
          if CHR '']'' \<in> set rest
          then Some (c # rev (dropWhile (\<lambda>c. c \<noteq> CHR '']'') (rev rest)))
          else None)"

text \<open>Iterating over a decoded value, as \<^verbatim>\<open>for rec in parsed_recs\<close> does.\<close>

fun py_iter :: "json \<Rightarrow> exn + json list" where
  "py_iter (JArr xs) = Inr xs"
| "py_iter (JObj kvs) = Inr (map (\<lambda>kv. JStr (fst kv)) kvs)"
| "py_iter (JStr s) = Inr (map (\<lambda>c. JStr [c]) s)"
| "py_iter _ = Inl (OtherException ''TypeError: object is not iterable'')"

text \<open>\<^verbatim>\<open>rec.get(key, default)\<close>; only a dictionary has the method.\<close>

fun rec_get :: "json \<Rightarrow> string \<Rightarrow> json \<Rightarrow> exn + json" where
  "rec_get (JObj kvs) k d = Inr (case map_of kvs k of None \<Rightarrow> d | Some v \<Rightarrow> v)"
| "rec_get _ k d = Inl (OtherException ''AttributeError: object has no attribute get'')"

text \<open>The dictionary appended to \<^verbatim>\<open>formatted_recs\<close> for one element; \<open>now\<close> is the
  ISO timestamp.\<close>

definition format_rec :: "string \<Rightarrow> json \<Rightarrow> exn + json" where
  "format_rec now rec =
     (case rec_get rec ''recommendation_type'' (JStr ''general'') of Inl e \<Rightarrow> Inl e | Inr ty \<Rightarrow>
      case rec_get rec ''priority'' (JStr ''medium'') of Inl e \<Rightarrow> Inl e | Inr pr \<Rightarrow>
      case rec_get rec ''title'' (JStr ''System Recommendation'') of Inl e \<Rightarrow> Inl e | Inr ti \<Rightarrow>
      case rec_get rec ''description'' (JStr []) of Inl e \<Rightarrow> Inl e | Inr de \<Rightarrow>
      case rec_get rec ''system_name'' (JStr ''all'') of Inl e \<Rightarrow> Inl e | Inr sy \<Rightarrow>
      case rec_get rec ''action'' (JStr []) of Inl e \<Rightarrow> Inl e | Inr ac \<Rightarrow>
        Inr (JObj
          [(''recommendation_type'', ty), (''priority'', pr), (''title'', ti),
           (''description'', de), (''system_name'', sy), (''actionable'', JBool True),
           (''action_url'', JNull), (''status'', JStr ''active''),
           (''metadata'', JObj [(''source'', JStr ''claude_sonnet_4''), (''action'', ac),
                                (''generated_at'', JStr now)]),
           (''created_at'', JStr now)]))"

fun format_recs :: "string \<Rightarrow> json list \<Rightarrow> exn + json list" where
  "format_recs now [] = Inr []"
| "format_recs now (rec # recs) =
     (case format_rec now rec of
        Inl e \<Rightarrow> Inl e
      | Inr f \<Rightarrow> (case format_recs now recs of Inl e \<Rightarrow> Inl e | Inr fs \<Rightarrow> Inr (f # fs)))"

text \<open>The fallback record; \<^verbatim>\<open>recommendations_text[:1000]\<close> is its description.\<close>

definition fallback :: "string \<Rightarrow> string \<Rightarrow> json" where
  "fallback now recommendations_text =
     JObj
       [(''recommendation_type'', JStr ''analysis''), (''priority'', JStr ''medium''),
        (''title'', JStr ''System Analysis Complete''),
        (''description'', JStr (take 1000 recommendations_text)),
        (''system_name'', JStr ''all''), (''actionable'', JBool True),
        (''action_url'', JNull), (''status'', JStr ''active''),
        (''metadata'', JObj [(''source'', JStr ''claude_sonnet_4'')]),
        (''created_at'', JStr now)]"

text \<open>
  The part of \<^verbatim>\<open>generate_recommendations\<close> after the reply has arrived.
  \<^verbatim>\<open>json.loads\<close> is an argument; \<open>None\<close> is its \<^verbatim>\<open>JSONDecodeError\<close>, the one
  exception the inner handler catches.
\<close>

definition parse_reply :: "(string \<Rightarrow> json option) \<Rightarrow> string \<Rightarrow> string \<Rightarrow> exn + json list" where
  "parse_reply json_loads now recommendations_text =
     (case search_array recommendations_text of
        None \<Rightarrow> Inr [fallback now recommendations_text]
      | Some json_match \<Rightarrow>
          (case json_loads json_match of
             None \<Rightarrow> Inr [fallback now recommendations_text]
           | Some parsed_recs \<Rightarrow>
               (case py_iter parsed_recs of
                  Inl e \<Rightarrow> Inl e
                | Inr recs \<Rightarrow> format_recs now recs)))"

text \<open>
  \<^verbatim>\<open>generate_recommendations\<close>: the summary of the window goes to the generator, an
  argument that answers with a text or raises; any exception, at any point, makes the
  result the empty list.
\<close>

definition generate_recommendations ::
  "((string \<Rightarrow> summary option) \<Rightarrow> exn + string) \<Rightarrow> (string \<Rightarrow> json option) \<Rightarrow> string
     \<Rightarrow> health_row list \<Rightarrow> json list" where
  "generate_recommendations generate json_loads now rows =
     (case generate (health_summary rows) of
        Inl e \<Rightarrow> []
      | Inr recommendations_text \<Rightarrow>
          (case parse_reply json_loads now recommendations_text of
             Inl e \<Rightarrow> []
           | Inr recs \<Rightarrow> recs))"



section \<open>Sample inputs\<close>

text \<open>A network given by the outcomes of the first attempts and the outcome of all later
  ones.\<close>

definition net_of :: "attempt list \<Rightarrow> attempt \<Rightarrow> network" where
  "net_of as d u n = (if n < length as then as ! n else d)"

definition refused :: attempt where
  "refused = \<lparr>outcome = Inl (OtherException ''All connection attempts failed''), duration = 2000\<rparr>"

definition timed_out :: attempt where
  "timed_out = \<lparr>outcome = Inl (TimeoutException ''ReadTimeout''), duration = 10000000\<rparr>"

definition ok_200 :: attempt where
  "ok_200 = \<lparr>outcome = Inr \<lparr>status_code = 200, response_json = Inr (JObj [(''status'', JStr ''ok'')])\<rparr>,
             duration = 120000\<rparr>"

definition http_503 :: attempt where
  "http_503 = \<lparr>outcome = Inr \<lparr>status_code = 503, response_json = Inr JNull\<rparr>, duration = 80000\<rparr>"

definition story_grid_pro :: system_info where
  "story_grid_pro =
     \<lparr>name = ''Story Grid Pro'', url = Some ''https://grid.example/'',
      endpoint = Some ''/api/status'', description = ''Production planning and module hub'',
      check_interval = 300, priority = ''high''\<rparr>"

definition w_start :: world where
  "w_start = \<lparr>clock = 0, attempts = 0, sleeps = []\<rparr>"


text \<open>The cache after a first read of the overview at time 1000.\<close>

definition C_first :: "string cache" where
  "C_first = CACHE(''health_overview'' \<mapsto> \<lparr>data = Some ''overview'', timestamp = Some 1000, ttl = 60\<rparr>)"

text \<open>An environment with both base URLs set, and a store with no rows yet.\<close>

definition sample_env :: "string \<Rightarrow> string option" where
  "sample_env v =
     (if v = ''STORY_GRID_PRO_URL'' then Some ''https://grid.example/''
      else if v = ''IAJ_SOCIAL_BASE_URL'' then Some ''https://social.example''
      else None)"

definition empty_store :: store where
  "empty_store = \<lparr>system_health = [], workflow_events = [], next_id = 1, calls = 0\<rparr>"

text \<open>
  How the store and the cache after some turns of the loop of \<^verbatim>\<open>run_health_checks\<close>
  relate to those before: rows are only added; with no row added the cache is the same;
  an overview entry stays, stays cleared once cleared, and is cleared when a row was added.
\<close>

definition cache_follows :: "store \<times> 'v cache \<Rightarrow> store \<times> 'v cache \<Rightarrow> bool" where
  "cache_follows sc sc' =
     (length (system_health (fst sc)) \<le> length (system_health (fst sc'))
      \<and> (length (system_health (fst sc')) = length (system_health (fst sc)) \<longrightarrow> snd sc' = snd sc)
      \<and> (\<forall>e. snd sc ''health_overview'' = Some e \<longrightarrow>
            (\<exists>e'. snd sc' ''health_overview'' = Some e'
               \<and> (data e = None \<longrightarrow> data e' = None)
               \<and> (length (system_health (fst sc)) < length (system_health (fst sc'))
                    \<longrightarrow> data e' = None))))"


section \<open>Describing a window of results\<close>

text \<open>
  The quantities the properties of the statistics are stated with: the rows of one system,
  the number of healthy rows, the response times that pass Python's truth test, and the
  truthy error messages of the rows that are not healthy, each in the order of the window.
\<close>

definition of_system :: "string \<Rightarrow> health_row list \<Rightarrow> health_row list" where
  "of_system k rows = filter (\<lambda>r. system_name r = k) rows"

definition healthy_count :: "health_row list \<Rightarrow> nat" where
  "healthy_count rows = length (filter (\<lambda>r. status r = Healthy) rows)"

definition truthy_times :: "health_row list \<Rightarrow> real list" where
  "truthy_times rows =
     map (\<lambda>r. the (response_time_ms r)) (filter (\<lambda>r. truthy_num (response_time_ms r)) rows)"

definition error_messages :: "health_row list \<Rightarrow> string list" where
  "error_messages rows =
     map (\<lambda>r. the (error_message r))
       (filter (\<lambda>r. status r \<noteq> Healthy \<and> truthy_str (error_message r)) rows)"


text \<open>A stored row of the system \<^verbatim>\<open>story_grid_pro\<close>.\<close>

definition sample_row :: "int \<Rightarrow> nat \<Rightarrow> status \<Rightarrow> real option \<Rightarrow> string option \<Rightarrow> health_row" where
  "sample_row i t s rt err =
     \<lparr>system_name = ''story_grid_pro'', status = s, response_time_ms = rt, last_check = t,
      error_message = err, metadata = JObj [], row_id = i, created_at = t\<rparr>"




definition zero_row :: health_row where
  "zero_row = sample_row 2 20 Healthy (Some 0) None"

definition fast_row :: health_row where
  "fast_row = sample_row 1 10 Healthy (Some 100) None"

text \<open>
  A table of 1500 rows of one system in the order of their insertion, identities 1 to
  1500. The rows 1 to 1499 carry the creation times 1 to 1499; the last row was stamped by
  a clock that had been set back, with the creation time 0.
\<close>

definition plain_row :: "nat \<Rightarrow> nat \<Rightarrow> health_row" where
  "plain_row i t = sample_row (int i) t Healthy (Some 100) None"

definition skewed_table :: "health_row list" where
  "skewed_table = map (\<lambda>i. plain_row i i) [1..<1500] @ [plain_row 1500 0]"

definition skewed_store :: store where
  "skewed_store = \<lparr>system_health = skewed_table, workflow_events = [], next_id = 1501, calls = 0\<rparr>"


section \<open>Properties of the probe executor\<close>

lemma retry_loop_last:
  "retry_loop func (Suc n) b n w =
     (case func w of (Inr r, w') \<Rightarrow> (Inr (Some r), w') | (Inl e, w') \<Rightarrow> (Inl e, w'))"
  by (subst retry_loop.simps) (simp split: prod.splits sum.splits)

lemma retry_loop_step:
  "Suc k < m \<Longrightarrow> retry_loop func m b k w =
     (case func w of
        (Inr r, w') \<Rightarrow> (Inr (Some r), w')
      | (Inl e, w') \<Rightarrow> retry_loop func m b (Suc k) (asyncio_sleep (b * 2 ^ k) w'))"
  by (subst retry_loop.simps) (auto split: prod.splits sum.splits)

lemma retry_two:
  "retry_with_backoff func 2 (Suc 0) w =
     (case func w of
        (Inr r, w1) \<Rightarrow> (Inr (Some r), w1)
      | (Inl e, w1) \<Rightarrow>
          (case func (asyncio_sleep (Suc 0) w1) of
             (Inr r, w2) \<Rightarrow> (Inr (Some r), w2)
           | (Inl e2, w2) \<Rightarrow> (Inl e2, w2)))"
proof -
  have two: "(2::nat) = Suc (Suc 0)" by simp
  have "retry_loop func (Suc (Suc 0)) (Suc 0) 0 w =
     (case func w of
        (Inr r, w') \<Rightarrow> (Inr (Some r), w')
      | (Inl e, w') \<Rightarrow> retry_loop func (Suc (Suc 0)) (Suc 0) (Suc 0) (asyncio_sleep (Suc 0 * 2 ^ 0) w'))"
    by (rule retry_loop_step) simp
  then show ?thesis
    unfolding retry_with_backoff_def two
    by (simp add: retry_loop_last split: prod.splits sum.splits)
qed

lemma attempt_check_Some:
  "url info = Some u \<Longrightarrow>
   attempt_check net info w =
     (outcome (net (probe_url info) (attempts w)),
      w\<lparr>clock := clock w + duration (net (probe_url info) (attempts w)),
        attempts := Suc (attempts w)\<rparr>)"
  by (simp add: attempt_check_def probe_url_def Let_def)

lemma attempt_check_None:
  "url info = None \<Longrightarrow> \<exists>m. attempt_check net info w = (Inl (OtherException m), w)"
  by (simp add: attempt_check_def)

lemma retry_fail_then_answer:
  assumes "url info = Some u"
    and "outcome (net (probe_url info) (attempts w)) = Inl e"
    and "outcome (net (probe_url info) (Suc (attempts w))) = Inr resp"
  shows "\<exists>w'. retry_with_backoff (attempt_check net info) 2 1 w = (Inr (Some resp), w')
     \<and> attempts w' = attempts w + 2 \<and> sleeps w' = sleeps w @ [1]"
  using assms
  by (simp add: retry_two attempt_check_Some asyncio_sleep_def)

lemma retry_fail_twice:
  assumes "url info = Some u"
    and "outcome (net (probe_url info) (attempts w)) = Inl e1"
    and "outcome (net (probe_url info) (Suc (attempts w))) = Inl e2"
  shows "\<exists>w'. retry_with_backoff (attempt_check net info) 2 1 w = (Inl e2, w')
     \<and> attempts w' = attempts w + 2 \<and> sleeps w' = sleeps w @ [1]"
  using assms
  by (simp add: retry_two attempt_check_Some asyncio_sleep_def)

lemma retry_answer_first:
  assumes "url info = Some u"
    and "outcome (net (probe_url info) (attempts w)) = Inr resp"
  shows "\<exists>w'. retry_with_backoff (attempt_check net info) 2 1 w = (Inr (Some resp), w')
     \<and> attempts w' = attempts w + 1 \<and> sleeps w' = sleeps w"
  using assms
  by (simp add: retry_two attempt_check_Some asyncio_sleep_def)

lemma check_on_raise:
  assumes "retry_with_backoff (attempt_check net info) 2 1 w = (Inl e, w')"
  shows "check_system_health key info net w =
     (Inr \<lparr>system_name = key,
           status = (case e of TimeoutException m \<Rightarrow> Timeout | OtherException m \<Rightarrow> Error),
           response_time_ms = None, last_check = clock w',
           error_message = Some (case e of TimeoutException m \<Rightarrow> ''Request timeout after retries''
                                  | OtherException m \<Rightarrow> m),
           metadata = JObj []\<rparr>, w')"
  using assms by (simp add: check_system_health_def check_body_def split: exn.splits)

lemma check_on_response:
  assumes "retry_with_backoff (attempt_check net info) 2 1 w = (Inr (Some resp), w')"
  shows "check_system_health key info net w =
     (if status_code resp = 200 then
        (case response_json resp of
           Inr body \<Rightarrow>
             (Inr \<lparr>system_name = key, status = Healthy,
                   response_time_ms = Some (py_round (real (clock w' - clock w) / 1000) 2),
                   last_check = clock w', error_message = None, metadata = body\<rparr>, w')
         | Inl e \<Rightarrow>
             (Inr \<lparr>system_name = key,
                   status = (case e of TimeoutException m \<Rightarrow> Timeout | OtherException m \<Rightarrow> Error),
                   response_time_ms = None, last_check = clock w',
                   error_message = Some (case e of TimeoutException m \<Rightarrow> ''Request timeout after retries''
                                  | OtherException m \<Rightarrow> m),
                   metadata = JObj []\<rparr>, w'))
      else
        (Inr \<lparr>system_name = key, status = Unhealthy,
              response_time_ms = Some (py_round (real (clock w' - clock w) / 1000) 2),
              last_check = clock w',
              error_message = Some (''HTTP '' @ str_int (status_code resp)),
              metadata = JObj [(''status_code'', JNum (status_code resp))]\<rparr>, w'))"
  using assms
  by (simp add: check_system_health_def check_body_def Let_def split: exn.splits sum.splits)

lemma check_total:
  "\<exists>r w'. check_system_health key info net w = (Inr r, w') \<and> system_name r = key"
proof (cases "check_body key info net w")
  case (Pair res w')
  have key': "(case res of Inl e \<Rightarrow> True | Inr r \<Rightarrow> system_name r = key)"
    using Pair
    by (auto simp: check_body_def Let_def split: prod.splits sum.splits option.splits if_splits)
  show ?thesis
  proof (cases res)
    case (Inl e)
    then show ?thesis using Pair by (cases e) (simp_all add: check_system_health_def)
  next
    case (Inr r)
    then show ?thesis using Pair key' by (simp add: check_system_health_def)
  qed
qed

lemma sample_outcomes:
  "outcome refused = Inl (OtherException ''All connection attempts failed'')"
  "outcome timed_out = Inl (TimeoutException ''ReadTimeout'')"
  "outcome ok_200 = Inr \<lparr>status_code = 200, response_json = Inr (JObj [(''status'', JStr ''ok'')])\<rparr>"
  "outcome http_503 = Inr \<lparr>status_code = 503, response_json = Inr JNull\<rparr>"
  by (simp_all add: refused_def timed_out_def ok_200_def http_503_def)

lemma sample_start: "attempts w_start = 0" "sleeps w_start = []" "clock w_start = 0"
  "url story_grid_pro = Some ''https://grid.example/''"
  by (simp_all add: w_start_def story_grid_pro_def)

lemma net_of_simps:
  "net_of (a # as) d u 0 = a"
  "net_of (a # b # as) d u (Suc 0) = b"
  "net_of [a] d u (Suc 0) = d"
  "net_of [] d u n = d"
  by (simp_all add: net_of_def)




lemma check_world:
  "snd (check_system_health key info net w) = snd (retry_with_backoff (attempt_check net info) 2 1 w)"
  by (simp add: check_system_health_def check_body_def Let_def
      split: prod.splits sum.splits option.splits exn.splits)

lemma retry_world_after_raise:
  assumes "url info = Some u"
    and "outcome (net (probe_url info) (attempts w)) = Inl e"
  shows "attempts (snd (retry_with_backoff (attempt_check net info) 2 1 w)) = attempts w + 2
     \<and> sleeps (snd (retry_with_backoff (attempt_check net info) 2 1 w)) = sleeps w @ [1]"
proof (cases "outcome (net (probe_url info) (Suc (attempts w)))")
  case (Inl e2)
  from retry_fail_twice [where net=net and info=info and w=w, OF assms Inl]
  show ?thesis by auto
next
  case (Inr resp)
  from retry_fail_then_answer [where net=net and info=info and w=w, OF assms Inr]
  show ?thesis by auto
qed

text \<open>
  Claim C2. For every target, every network and every starting state,
  \<^verbatim>\<open>check_system_health\<close> returns a result dictionary for the target and raises nothing.
  When the network keeps to one condition, the status names it: a timeout gives
  \<^verbatim>\<open>timeout\<close>, any other transport failure (a refused connection) gives \<^verbatim>\<open>error\<close> with
  the failure's description, an exchange with HTTP 200 gives \<^verbatim>\<open>healthy\<close>, and an exchange
  with another code gives \<^verbatim>\<open>unhealthy\<close> with the message \<^verbatim>\<open>HTTP <code>\<close>.
\<close>

theorem probe_returns_one_result:
  "\<exists>r w'. check_system_health key info net w = (Inr r, w') \<and> system_name r = key \<and>
     (url info = Some u \<and> outcome (net (probe_url info) (attempts w)) = c
        \<and> outcome (net (probe_url info) (Suc (attempts w))) = c \<longrightarrow>
      (c = Inl (TimeoutException m) \<longrightarrow> status r = Timeout \<and> response_time_ms r = None) \<and>
      (c = Inl (OtherException m) \<longrightarrow> status r = Error \<and> error_message r = Some m) \<and>
      (c = Inr resp \<and> status_code resp = 200 \<and> response_json resp = Inr body \<longrightarrow>
         status r = Healthy \<and> error_message r = None \<and> metadata r = body) \<and>
      (c = Inr resp \<and> status_code resp \<noteq> 200 \<longrightarrow>
         status r = Unhealthy \<and> error_message r = Some (''HTTP '' @ str_int (status_code resp))))"
proof -
  obtain r w' where rw: "check_system_health key info net w = (Inr r, w')" "system_name r = key"
    using check_total by blast
  have "status r = Timeout \<and> response_time_ms r = None"
    if "url info = Some u" "outcome (net (probe_url info) (attempts w)) = Inl (TimeoutException m)"
      "outcome (net (probe_url info) (Suc (attempts w))) = Inl (TimeoutException m)"
  proof -
    from retry_fail_twice [where net=net and info=info and w=w, OF that]
    obtain w2 where "retry_with_backoff (attempt_check net info) 2 1 w = (Inl (TimeoutException m), w2)"
      by auto
    from check_on_raise [OF this, of key] rw show ?thesis by simp
  qed
  moreover have "status r = Error \<and> error_message r = Some m"
    if "url info = Some u" "outcome (net (probe_url info) (attempts w)) = Inl (OtherException m)"
      "outcome (net (probe_url info) (Suc (attempts w))) = Inl (OtherException m)"
  proof -
    from retry_fail_twice [where net=net and info=info and w=w, OF that]
    obtain w2 where "retry_with_backoff (attempt_check net info) 2 1 w = (Inl (OtherException m), w2)"
      by auto
    from check_on_raise [OF this, of key] rw show ?thesis by simp
  qed
  moreover have "status r = Healthy \<and> error_message r = None \<and> metadata r = body"
    if "url info = Some u" "outcome (net (probe_url info) (attempts w)) = Inr resp"
      "status_code resp = 200" "response_json resp = Inr body"
  proof -
    from retry_answer_first [where net=net and info=info and w=w, OF that(1,2)]
    obtain w2 where "retry_with_backoff (attempt_check net info) 2 1 w = (Inr (Some resp), w2)"
      by auto
    from check_on_response [OF this, of key] rw that(3,4) show ?thesis by auto
  qed
  moreover have "status r = Unhealthy \<and> error_message r = Some (''HTTP '' @ str_int (status_code resp))"
    if "url info = Some u" "outcome (net (probe_url info) (attempts w)) = Inr resp"
      "status_code resp \<noteq> 200"
  proof -
    from retry_answer_first [where net=net and info=info and w=w, OF that(1,2)]
    obtain w2 where "retry_with_backoff (attempt_check net info) 2 1 w = (Inr (Some resp), w2)"
      by auto
    from check_on_response [OF this, of key] rw that(3) show ?thesis by auto
  qed
  ultimately show ?thesis using rw by blast
qed

lemma str_int_503: "str_int 503 = ''503''"
  by (simp add: str_int_def str_nat.simps)

lemma const_net: "outcome (net_of [] a u n) = outcome a"
  by (simp add: net_of_def)

text \<open>
  The theorem for C2 under the four network conditions.
\<close>

theorem probe_returns_one_result_witness:
  "(\<exists>r w'. check_system_health ''story_grid_pro'' story_grid_pro (net_of [] timed_out) w_start = (Inr r, w')
       \<and> status r = Timeout \<and> response_time_ms r = None)
   \<and> (\<exists>r w'. check_system_health ''story_grid_pro'' story_grid_pro (net_of [] refused) w_start = (Inr r, w')
       \<and> status r = Error \<and> error_message r = Some ''All connection attempts failed'')
   \<and> (\<exists>r w'. check_system_health ''story_grid_pro'' story_grid_pro (net_of [] ok_200) w_start = (Inr r, w')
       \<and> status r = Healthy \<and> error_message r = None)
   \<and> (\<exists>r w'. check_system_health ''story_grid_pro'' story_grid_pro (net_of [] http_503) w_start = (Inr r, w')
       \<and> status r = Unhealthy \<and> error_message r = Some ''HTTP 503'')"
  using
    probe_returns_one_result [where key="''story_grid_pro''" and info=story_grid_pro
      and net="net_of [] timed_out" and w=w_start and u="''https://grid.example/''"
      and c="outcome timed_out" and m="''ReadTimeout''"]
    probe_returns_one_result [where key="''story_grid_pro''" and info=story_grid_pro
      and net="net_of [] refused" and w=w_start and u="''https://grid.example/''"
      and c="outcome refused" and m="''All connection attempts failed''"]
    probe_returns_one_result [where key="''story_grid_pro''" and info=story_grid_pro
      and net="net_of [] ok_200" and w=w_start and u="''https://grid.example/''"
      and c="outcome ok_200"
      and resp="\<lparr>status_code = 200, response_json = Inr (JObj [(''status'', JStr ''ok'')])\<rparr>"
      and body="JObj [(''status'', JStr ''ok'')]"]
    probe_returns_one_result [where key="''story_grid_pro''" and info=story_grid_pro
      and net="net_of [] http_503" and w=w_start and u="''https://grid.example/''"
      and c="outcome http_503"
      and resp="\<lparr>status_code = 503, response_json = Inr JNull\<rparr>"]
  apply (simp add: const_net sample_start sample_outcomes str_int_503)
  apply blast
  done

text \<open>
  Claim C3, as the code has it. The handler in \<^verbatim>\<open>retry_with_backoff\<close> catches every
  \<^verbatim>\<open>Exception\<close>, a timeout included: after a first attempt that raises, whatever it
  raises, the probe sleeps 1 second and makes its second and final attempt. A timeout on
  that final attempt yields the status \<^verbatim>\<open>timeout\<close> with no response time.
\<close>

theorem timeout_is_retried:
  assumes "url info = Some u"
    and "outcome (net (probe_url info) (attempts w)) = Inl e"
  shows "attempts (snd (check_system_health key info net w)) = attempts w + 2
       \<and> sleeps (snd (check_system_health key info net w)) = sleeps w @ [1]
       \<and> (outcome (net (probe_url info) (Suc (attempts w))) = Inl (TimeoutException m) \<longrightarrow>
            (\<exists>r. fst (check_system_health key info net w) = Inr r \<and> status r = Timeout
               \<and> response_time_ms r = None
               \<and> error_message r = Some ''Request timeout after retries''))"
proof (intro conjI impI)
  show "attempts (snd (check_system_health key info net w)) = attempts w + 2"
    using retry_world_after_raise [where net=net and info=info and w=w, OF assms] by (simp add: check_world)
  show "sleeps (snd (check_system_health key info net w)) = sleeps w @ [1]"
    using retry_world_after_raise [where net=net and info=info and w=w, OF assms] by (simp add: check_world)
next
  assume t: "outcome (net (probe_url info) (Suc (attempts w))) = Inl (TimeoutException m)"
  from retry_fail_twice [where net=net and info=info and w=w, OF assms t]
  obtain w2 where "retry_with_backoff (attempt_check net info) 2 1 w = (Inl (TimeoutException m), w2)"
    by auto
  from check_on_raise [OF this, of key]
  show "\<exists>r. fst (check_system_health key info net w) = Inr r \<and> status r = Timeout
               \<and> response_time_ms r = None
               \<and> error_message r = Some ''Request timeout after retries''"
    by simp
qed

text \<open>
  The theorem for C3 at a target that times out on every attempt.
\<close>

theorem timeout_is_retried_witness:
  "attempts (snd (check_system_health ''story_grid_pro'' story_grid_pro (net_of [] timed_out) w_start)) = 2
   \<and> sleeps (snd (check_system_health ''story_grid_pro'' story_grid_pro (net_of [] timed_out) w_start)) = [1]
   \<and> (\<exists>r. fst (check_system_health ''story_grid_pro'' story_grid_pro (net_of [] timed_out) w_start) = Inr r
        \<and> status r = Timeout \<and> response_time_ms r = None
        \<and> error_message r = Some ''Request timeout after retries'')"
  using timeout_is_retried [where info=story_grid_pro and net="net_of [] timed_out" and w=w_start
      and key="''story_grid_pro''" and u="''https://grid.example/''"
      and e="TimeoutException ''ReadTimeout''" and m="''ReadTimeout''"]
  by (simp add: const_net sample_start sample_outcomes)

text \<open>
  Claim C3 as stated fails: after a first attempt that times out, a second attempt is made,
  and when it is answered with HTTP 200 the result is healthy.
\<close>

theorem timeout_not_retried_counterexample:
  "\<exists>r w'. check_system_health ''story_grid_pro'' story_grid_pro (net_of [timed_out] ok_200) w_start
             = (Inr r, w')
      \<and> outcome (net_of [timed_out] ok_200 (probe_url story_grid_pro) 0) = Inl (TimeoutException ''ReadTimeout'')
      \<and> attempts w' = 2 \<and> sleeps w' = [1] \<and> status r = Healthy"
proof -
  have u: "url story_grid_pro = Some ''https://grid.example/''" by (simp add: sample_start)
  have "\<exists>w'. retry_with_backoff (attempt_check (net_of [timed_out] ok_200) story_grid_pro) 2 1 w_start
      = (Inr (Some \<lparr>status_code = 200, response_json = Inr (JObj [(''status'', JStr ''ok'')])\<rparr>), w')
     \<and> attempts w' = attempts w_start + 2 \<and> sleeps w' = sleeps w_start @ [1]"
    by (rule retry_fail_then_answer [where net="net_of [timed_out] ok_200" and info=story_grid_pro
          and w=w_start and e="TimeoutException ''ReadTimeout''", OF u])
       (simp_all add: sample_start net_of_simps sample_outcomes)
  then obtain w' where r: "retry_with_backoff (attempt_check (net_of [timed_out] ok_200) story_grid_pro) 2 1 w_start
      = (Inr (Some \<lparr>status_code = 200, response_json = Inr (JObj [(''status'', JStr ''ok'')])\<rparr>), w')"
    and w': "attempts w' = attempts w_start + 2" "sleeps w' = sleeps w_start @ [1]"
    by auto
  show ?thesis
    using check_on_response [OF r, of "''story_grid_pro''"] w'
    by (simp add: sample_start net_of_simps sample_outcomes)
qed


section \<open>Properties of the result cache\<close>






text \<open>A computation that returns \<^verbatim>\<open>None\<close> leaves no value behind: the next call computes again.\<close>

lemma cached_none_not_kept:
  "func s = (Inr None, s') \<Longrightarrow> cache_hit C k ttl' now = None \<Longrightarrow>
   cache_hit (snd (snd (cached k ttl' func now s C))) k ttl' now2 = None"
  by (simp add: cached_def cache_hit_def)





section \<open>Properties of the fan-out runner\<close>

lemma check_never_raises:
  "\<exists>r. fst (check_system_health key info net w) = Inr r"
  by (auto simp: check_system_health_def split: prod.splits sum.splits exn.splits)

lemma insert_system_health_rows:
  "system_health (snd (insert_system_health fails now h st)) =
     (if fails (calls st) then system_health st
      else system_health st @
        [\<lparr>system_name = system_name h, status = status h,
          response_time_ms = response_time_ms h, last_check = last_check h,
          error_message = error_message h, metadata = metadata h,
          row_id = next_id st, created_at = now\<rparr>])"
  "fst (insert_system_health fails now h st) = (\<not> fails (calls st))"
  by (simp_all add: insert_system_health_def store_call_def split: bool.splits)

lemma insert_workflow_event_rows:
  "system_health (snd (insert_workflow_event fails ev st)) = system_health st"
  by (simp add: insert_workflow_event_def store_call_def split: bool.splits)

lemma store_one_failed:
  "fails (calls (fst sc)) \<Longrightarrow>
   system_health (fst (store_one fails now h sc)) = system_health (fst sc)
   \<and> snd (store_one fails now h sc) = snd sc"
  by (simp add: store_one_def insert_system_health_def store_call_def split: bool.splits)

lemma store_one_stored:
  assumes "\<not> fails (calls (fst sc))" and "snd sc ''health_overview'' = Some e"
  shows "length (system_health (fst (store_one fails now h sc))) = Suc (length (system_health (fst sc)))
   \<and> snd (store_one fails now h sc) = (snd sc)(''health_overview'' \<mapsto> e\<lparr>data := None\<rparr>)"
  using assms
  by (simp add: store_one_def insert_system_health_def store_call_def invalidate_def
      insert_workflow_event_rows split: bool.splits)


lemma cache_follows_refl: "cache_follows sc sc"
  by (simp add: cache_follows_def)

lemma cache_follows_trans:
  assumes a: "cache_follows sc sc1" and b: "cache_follows sc1 sc2"
  shows "cache_follows sc sc2"
proof -
  let ?n = "length (system_health (fst sc))"
  let ?n1 = "length (system_health (fst sc1))"
  let ?n2 = "length (system_health (fst sc2))"
  note a' = a [unfolded cache_follows_def]
  note b' = b [unfolded cache_follows_def]
  have l1: "?n \<le> ?n1" by (rule conjunct1 [OF a'])
  have l2: "?n1 \<le> ?n2" by (rule conjunct1 [OF b'])
  have u1: "?n1 = ?n \<longrightarrow> snd sc1 = snd sc" by (rule conjunct1 [OF conjunct2 [OF a']])
  have u2: "?n2 = ?n1 \<longrightarrow> snd sc2 = snd sc1" by (rule conjunct1 [OF conjunct2 [OF b']])
  note e1 = conjunct2 [OF conjunct2 [OF a'], rule_format]
  note e2 = conjunct2 [OF conjunct2 [OF b'], rule_format]
  have A: "?n \<le> ?n2" using l1 l2 by (rule le_trans)
  have B: "?n2 = ?n \<longrightarrow> snd sc2 = snd sc"
  proof
    assume eq: "?n2 = ?n"
    from l1 l2 eq have m: "?n1 = ?n" by (metis le_antisym)
    from eq m have "?n2 = ?n1" by (rule trans_sym) 
    with u2 have "snd sc2 = snd sc1" by (rule mp)
    also from m u1 have "snd sc1 = snd sc" by (rule mp [rotated])
    finally show "snd sc2 = snd sc" .
  qed
  have C: "\<forall>e. snd sc ''health_overview'' = Some e \<longrightarrow>
      (\<exists>e'. snd sc2 ''health_overview'' = Some e' \<and> (data e = None \<longrightarrow> data e' = None)
         \<and> (?n < ?n2 \<longrightarrow> data e' = None))"
  proof (intro allI impI)
    fix e assume "snd sc ''health_overview'' = Some e"
    from e1 [OF this] obtain x where x: "snd sc1 ''health_overview'' = Some x"
      and xk: "data e = None \<longrightarrow> data x = None" and xg: "?n < ?n1 \<longrightarrow> data x = None"
      by (elim exE conjE)
    from e2 [OF x] obtain y where y: "snd sc2 ''health_overview'' = Some y"
      and yk: "data x = None \<longrightarrow> data y = None" and yg: "?n1 < ?n2 \<longrightarrow> data y = None"
      by (elim exE conjE)
    have g: "?n < ?n2 \<longrightarrow> data y = None"
    proof
      assume lt: "?n < ?n2"
      show "data y = None"
      proof (cases "?n < ?n1")
        case True
        with xg have "data x = None" by (rule mp)
        with yk show ?thesis by (rule mp)
      next
        case False
        with l1 have "?n1 = ?n" by (metis le_neq_implies_less)
        with lt have "?n1 < ?n2" by linarith
        with yg show ?thesis by (rule mp)
      qed
    qed
    have k: "data e = None \<longrightarrow> data y = None"
    proof
      assume "data e = None"
      with xk have "data x = None" by (rule mp)
      with yk show "data y = None" by (rule mp)
    qed
    show "\<exists>e'. snd sc2 ''health_overview'' = Some e' \<and> (data e = None \<longrightarrow> data e' = None)
         \<and> (?n < ?n2 \<longrightarrow> data e' = None)"
      by (rule exI [of _ y]) (intro conjI y k g)
  qed
  show ?thesis
    unfolding cache_follows_def by (intro conjI A B C)
qed

lemma store_one_follows: "cache_follows sc (store_one fails now h sc)"
proof (cases "fails (calls (fst sc))")
  case True
  from store_one_failed [where fails=fails and sc=sc, OF True, of now h]
  show ?thesis by (simp add: cache_follows_def)
next
  case False
  have "\<forall>e. snd sc ''health_overview'' = Some e \<longrightarrow>
      length (system_health (fst (store_one fails now h sc))) = Suc (length (system_health (fst sc)))
      \<and> snd (store_one fails now h sc) = (snd sc)(''health_overview'' \<mapsto> e\<lparr>data := None\<rparr>)"
    using store_one_stored [where fails=fails and sc=sc, OF False, of _ now h] by blast
  moreover have "snd sc ''health_overview'' = None \<longrightarrow>
      length (system_health (fst (store_one fails now h sc))) = Suc (length (system_health (fst sc)))"
    using False
    by (simp add: store_one_def insert_system_health_def store_call_def invalidate_def
        split: bool.splits)
  ultimately show ?thesis
    by (cases "snd sc ''health_overview''") (simp_all add: cache_follows_def)
qed

lemma store_results_follows: "cache_follows sc (store_results fails now results sc)"
proof (induction results arbitrary: sc)
  case Nil
  show ?case by (simp add: cache_follows_refl)
next
  case (Cons x results)
  show ?case
  proof (cases x)
    case (Inl ex)
    have "store_results fails now (x # results) sc = store_results fails now results sc"
      using Inl by simp
    then show ?thesis using Cons.IH [of sc] by simp
  next
    case (Inr h)
    have r: "store_results fails now (x # results) sc
        = store_results fails now results (store_one fails now h sc)"
      using Inr by simp
    show ?thesis
      unfolding r
      by (rule cache_follows_trans [OF store_one_follows Cons.IH])
  qed
qed

lemma store_results_all_fail:
  "(\<And>n. fails n) \<Longrightarrow> snd (store_results fails now results sc) = snd sc"
proof (induction results arbitrary: sc)
  case Nil
  then show ?case by simp
next
  case (Cons x results)
  show ?case
  proof (cases x)
    case (Inl ex)
    have "snd (store_results fails now results sc) = snd sc"
      by (rule Cons.IH) (rule Cons.prems)
    then show ?thesis using Inl by simp
  next
    case (Inr h)
    have f: "fails (calls (fst sc))" by (rule Cons.prems)
    have "snd (store_results fails now results (store_one fails now h sc)) = snd (store_one fails now h sc)"
      by (rule Cons.IH) (rule Cons.prems)
    also have "\<dots> = snd sc"
      using store_one_failed [where fails=fails and sc=sc, OF f, of now h] by simp
    finally show ?thesis using Inr by simp
  qed
qed

lemma store_one_length:
  "\<not> fails (calls (fst sc)) \<Longrightarrow>
   length (system_health (fst (store_one fails now h sc))) = Suc (length (system_health (fst sc)))"
  by (simp add: store_one_def insert_system_health_def store_call_def insert_workflow_event_rows
      split: bool.splits sum.splits)

lemma run_stores_first:
  assumes "systems \<noteq> []" and "\<not> fails (calls st)"
  shows "length (system_health st)
     < length (system_health (fst (run_health_checks fails nets systems w (st, C))))"
proof -
  obtain k info rest where s: "systems = (k, info) # rest"
    using assms(1) by (cases systems) auto
  obtain h where h: "fst (check_system_health k info (nets k) w) = Inr h"
    using check_never_raises by blast
  let ?now = "fold max (map (\<lambda>t. clock (snd t))
      (map (\<lambda>(system_key, info). check_system_health system_key info (nets system_key) w) systems)) (clock w)"
  let ?rs = "map fst (map (\<lambda>(system_key, info). check_system_health system_key info (nets system_key) w) rest)"
  let ?sc1 = "store_one fails ?now h (st, C)"
  have run: "run_health_checks fails nets systems w (st, C) = store_results fails ?now ?rs ?sc1"
    using s h by (simp add: run_health_checks_def Let_def)
  have "length (system_health (fst ?sc1)) = Suc (length (system_health st))"
    using store_one_length [where fails=fails and sc="(st, C)"] assms(2) by simp
  moreover have "length (system_health (fst ?sc1))
      \<le> length (system_health (fst (store_results fails ?now ?rs ?sc1)))"
    by (rule conjunct1 [OF store_results_follows [unfolded cache_follows_def]])
  ultimately show ?thesis unfolding run by linarith
qed

text \<open>
  Claim C8, as the code has it. The statement that clears the cached overview stands inside
  the loop over the results, after the insert of the row and inside its \<^verbatim>\<open>try\<close>. So a
  run of \<^verbatim>\<open>run_health_checks\<close> that stores at least one row leaves the overview entry
  with \<^verbatim>\<open>data\<close> cleared, whatever the statuses of the results (a batch of healthy results
  too); with at least one target and a store that accepts the first insert this is so;
  and a run that stores no row leaves the cache as it was.
\<close>

theorem fan_out_clears_overview_when_a_row_is_stored:
  assumes "C ''health_overview'' = Some e"
  shows "\<exists>e'. snd (run_health_checks fails nets systems w (st, C)) ''health_overview'' = Some e'
      \<and> (length (system_health st)
            < length (system_health (fst (run_health_checks fails nets systems w (st, C))))
          \<longrightarrow> data e' = None)
      \<and> (systems \<noteq> [] \<and> \<not> fails (calls st) \<longrightarrow> data e' = None)
      \<and> (length (system_health (fst (run_health_checks fails nets systems w (st, C))))
            = length (system_health st)
          \<longrightarrow> snd (run_health_checks fails nets systems w (st, C)) = C)"
proof -
  let ?now = "fold max (map (\<lambda>t. clock (snd t))
      (map (\<lambda>(system_key, info). check_system_health system_key info (nets system_key) w) systems)) (clock w)"
  let ?rs = "map fst (map (\<lambda>(system_key, info). check_system_health system_key info (nets system_key) w) systems)"
  have run: "run_health_checks fails nets systems w (st, C) = store_results fails ?now ?rs (st, C)"
    by (simp add: run_health_checks_def Let_def)
  note f = store_results_follows [where sc="(st, C)" and fails=fails and now="?now" and results="?rs",
      unfolded cache_follows_def, folded run]
  have same: "length (system_health (fst (run_health_checks fails nets systems w (st, C))))
            = length (system_health st)
          \<longrightarrow> snd (run_health_checks fails nets systems w (st, C)) = C"
    using conjunct1 [OF conjunct2 [OF f]] by simp
  from conjunct2 [OF conjunct2 [OF f], rule_format, of e] assms
  obtain e' where e': "snd (run_health_checks fails nets systems w (st, C)) ''health_overview'' = Some e'"
    and g: "length (system_health st)
            < length (system_health (fst (run_health_checks fails nets systems w (st, C))))
          \<longrightarrow> data e' = None"
    by auto
  have "systems \<noteq> [] \<and> \<not> fails (calls st) \<longrightarrow> data e' = None"
  proof
    assume "systems \<noteq> [] \<and> \<not> fails (calls st)"
    then have "length (system_health st)
            < length (system_health (fst (run_health_checks fails nets systems w (st, C))))"
      using run_stores_first [where systems=systems and fails=fails and st=st] by blast
    with g show "data e' = None" by (rule mp)
  qed
  with e' g same show ?thesis by blast
qed

text \<open>
  Claim C8 as stated fails: when every call to the store raises (as with no store client
  configured), the high-priority sweep leaves the cached overview in place; so does a run
  over no targets.
\<close>

theorem fan_out_without_stored_row_counterexample:
  "snd (check_high_priority_systems sample_env (\<lambda>n. True) (\<lambda>k. net_of [] ok_200) w_start
          (empty_store, C_first)) ''health_overview''
     = Some \<lparr>data = Some ''overview'', timestamp = Some 1000, ttl = 60\<rparr>
   \<and> snd (run_health_checks (\<lambda>n. False) (\<lambda>k. net_of [] ok_200) [] w_start
          (empty_store, C_first)) ''health_overview''
     = Some \<lparr>data = Some ''overview'', timestamp = Some 1000, ttl = 60\<rparr>"
proof -
  have "snd (check_high_priority_systems sample_env (\<lambda>n. True) (\<lambda>k. net_of [] ok_200) w_start
          (empty_store, C_first)) = C_first"
    unfolding check_high_priority_systems_def run_health_checks_def Let_def
    using store_results_all_fail [where fails="\<lambda>n. True" and sc="(empty_store, C_first)"]
    by simp
  moreover have "snd (run_health_checks (\<lambda>n. False) (\<lambda>k. net_of [] ok_200) [] w_start
          (empty_store, C_first)) = C_first"
    by (simp add: run_health_checks_def)
  ultimately show ?thesis by (simp add: C_first_def)
qed

text \<open>
  The theorem for C8 at the high-priority sweep with every target answering HTTP 200 and a
  store that accepts every call: the cached overview is cleared.
\<close>

theorem fan_out_clears_overview_when_a_row_is_stored_witness:
  "\<exists>e'. snd (check_high_priority_systems sample_env (\<lambda>n. False) (\<lambda>k. net_of [] ok_200) w_start
          (empty_store, C_first)) ''health_overview'' = Some e' \<and> data e' = None"
proof -
  have ne: "filter (\<lambda>(k, v). priority v = ''high'') (SYSTEMS sample_env) \<noteq> []"
    by (simp add: SYSTEMS_def)
  have c: "C_first ''health_overview'' = Some \<lparr>data = Some ''overview'', timestamp = Some 1000, ttl = 60\<rparr>"
    by (simp add: C_first_def)
  have ok: "\<not> (\<lambda>n. False) (calls empty_store)" by simp
  from fan_out_clears_overview_when_a_row_is_stored [where C=C_first
        and e="\<lparr>data = Some ''overview'', timestamp = Some 1000, ttl = 60\<rparr>"
        and fails="\<lambda>n. False" and nets="\<lambda>k. net_of [] ok_200"
        and systems="filter (\<lambda>(k, v). priority v = ''high'') (SYSTEMS sample_env)"
        and w=w_start and st=empty_store, OF c] ne ok
  show ?thesis
    unfolding check_high_priority_systems_def by blast
qed


section \<open>Properties of the handling of the generator's reply\<close>

lemma parse_reply_fallback:
  assumes "search_array reply = None \<or> (\<exists>m. search_array reply = Some m \<and> json_loads m = None)"
  shows "parse_reply json_loads now reply = Inr [fallback now reply]"
  using assms by (auto simp: parse_reply_def)

lemma fallback_description:
  "rec_get (fallback now reply) ''description'' JNull = Inr (JStr (take 1000 reply))"
  by (simp add: fallback_def)

text \<open>
  Claim C9, as the code has it. When the reply holds no bracketed part, or its bracketed
  part does not decode as JSON, \<^verbatim>\<open>generate_recommendations\<close> returns exactly one
  record, the fallback, whose description is the first 1000 characters of the reply: the
  whole reply, unaltered, when it has at most 1000 characters.
\<close>

theorem fallback_keeps_first_1000_characters:
  assumes "generate (health_summary rows) = Inr reply"
    and "search_array reply = None \<or> (\<exists>m. search_array reply = Some m \<and> json_loads m = None)"
  shows "\<exists>r. generate_recommendations generate json_loads now rows = [r]
     \<and> rec_get r ''description'' JNull = Inr (JStr (take 1000 reply))
     \<and> (length reply \<le> 1000 \<longrightarrow> rec_get r ''description'' JNull = Inr (JStr reply))"
proof -
  have "generate_recommendations generate json_loads now rows = [fallback now reply]"
    using assms(1) parse_reply_fallback [OF assms(2)]
    by (simp add: generate_recommendations_def)
  then show ?thesis
    by (simp add: fallback_description)
qed

lemma search_array_plain: "search_array ''All systems are doing well.'' = None"
  by (simp add: search_array_def)

lemma search_array_broken: "search_array ''See [a, b'' = None"
  by (simp add: search_array_def)

lemma search_array_list: "search_array ''Here: [oops] done'' = Some ''[oops]''"
  by (simp add: search_array_def)

text \<open>
  The theorem for C9 at a reply with no bracket and at one whose bracketed part does not
  decode.
\<close>

theorem fallback_keeps_first_1000_characters_witness:
  "(\<exists>r. generate_recommendations (\<lambda>s. Inr ''All systems are doing well.'') (\<lambda>m. None)
           ''2025-01-01T09:00:00+00:00'' [] = [r]
      \<and> rec_get r ''description'' JNull = Inr (JStr ''All systems are doing well.''))
   \<and> (\<exists>r. generate_recommendations (\<lambda>s. Inr ''Here: [oops] done'') (\<lambda>m. None)
           ''2025-01-01T09:00:00+00:00'' [] = [r]
      \<and> rec_get r ''description'' JNull = Inr (JStr ''Here: [oops] done''))"
  using
    fallback_keeps_first_1000_characters [where generate="\<lambda>s. Inr ''All systems are doing well.''"
      and rows="[]" and reply="''All systems are doing well.''" and json_loads="\<lambda>m. None"
      and now="''2025-01-01T09:00:00+00:00''"]
    fallback_keeps_first_1000_characters [where generate="\<lambda>s. Inr ''Here: [oops] done''"
      and rows="[]" and reply="''Here: [oops] done''" and json_loads="\<lambda>m. None"
      and now="''2025-01-01T09:00:00+00:00''"]
  by (simp add: search_array_plain search_array_list)

lemma search_array_no_bracket:
  assumes "CHR ''['' \<notin> set reply"
  shows "search_array reply = None"
proof -
  have "dropWhile (\<lambda>c. c \<noteq> CHR ''['') reply = []"
    using assms by (auto simp: dropWhile_eq_Nil_conv)
  then show ?thesis by (simp only: search_array_def list.case)
qed

text \<open>
  Claim C9 as stated fails: of a reply of 1001 characters the fallback record keeps the
  first 1000, so the reply is not preserved untruncated.
\<close>

theorem fallback_truncates_counterexample:
  "generate_recommendations (\<lambda>s. Inr (replicate 1001 CHR ''a'')) (\<lambda>m. None)
       ''2025-01-01T09:00:00+00:00'' []
     = [fallback ''2025-01-01T09:00:00+00:00'' (replicate 1001 CHR ''a'')]
   \<and> rec_get (fallback ''2025-01-01T09:00:00+00:00'' (replicate 1001 CHR ''a'')) ''description'' JNull
     = Inr (JStr (replicate 1000 CHR ''a''))
   \<and> replicate 1000 CHR ''a'' \<noteq> replicate 1001 CHR ''a''"
proof -
  have n: "search_array (replicate 1001 CHR ''a'') = None"
    by (rule search_array_no_bracket) simp
  have 1: "generate_recommendations (\<lambda>s. Inr (replicate 1001 CHR ''a'')) (\<lambda>m. None)
       ''2025-01-01T09:00:00+00:00'' []
     = [fallback ''2025-01-01T09:00:00+00:00'' (replicate 1001 CHR ''a'')]"
    using n by (simp add: generate_recommendations_def parse_reply_def)
  have 2: "rec_get (fallback ''2025-01-01T09:00:00+00:00'' (replicate 1001 CHR ''a'')) ''description'' JNull
     = Inr (JStr (replicate 1000 CHR ''a''))"
    by (simp add: fallback_description)
  have "length (replicate 1000 CHR ''a'') \<noteq> length (replicate 1001 CHR ''a'')" by simp
  then have 3: "replicate 1000 CHR ''a'' \<noteq> replicate 1001 CHR ''a''" by metis
  from 1 2 3 show ?thesis by blast
qed

text \<open>
  Outside the two failures above: a reply whose bracketed part decodes to a list with an
  element that is not an object makes \<^verbatim>\<open>rec.get\<close> raise, the outer handler returns the
  empty list, and nothing of the reply is kept.
\<close>

lemma reply_with_non_object_is_dropped:
  "generate_recommendations (\<lambda>s. Inr ''Here: [oops] done'') (\<lambda>m. Some (JArr [JStr ''oops'']))
     ''2025-01-01T09:00:00+00:00'' [] = []"
  by (simp add: generate_recommendations_def parse_reply_def search_array_list format_rec_def)


section \<open>Properties of the statistics\<close>

lemma system_stats_snoc: "system_stats (rows @ [r]) = add_record r (system_stats rows)"
  by (simp add: system_stats_def)

lemma window_snoc:
  "of_system k (rows @ [r]) = (if system_name r = k then of_system k rows @ [r] else of_system k rows)"
  "healthy_count (rows @ [r]) = (if status r = Healthy then Suc (healthy_count rows) else healthy_count rows)"
  "truthy_times (rows @ [r]) =
     (if truthy_num (response_time_ms r) then truthy_times rows @ [the (response_time_ms r)]
      else truthy_times rows)"
  "error_messages (rows @ [r]) =
     (if status r \<noteq> Healthy \<and> truthy_str (error_message r)
      then error_messages rows @ [the (error_message r)] else error_messages rows)"
  by (simp_all add: of_system_def healthy_count_def truthy_times_def error_messages_def)

lemma healthy_count_le: "healthy_count rows \<le> length rows"
  by (simp add: healthy_count_def)

lemma window_nil:
  "of_system k [] = []" "healthy_count [] = 0" "truthy_times [] = []" "error_messages [] = []"
  by (simp_all add: of_system_def healthy_count_def truthy_times_def error_messages_def)

lemma system_stats_char:
  "system_stats rows k =
     (if of_system k rows = [] then None
      else Some \<lparr>total = length (of_system k rows),
                 healthy = healthy_count (of_system k rows),
                 unhealthy = length (of_system k rows) - healthy_count (of_system k rows),
                 errors = error_messages (of_system k rows),
                 response_times = truthy_times (of_system k rows)\<rparr>)"
proof (induction rows rule: rev_induct)
  case Nil
  show ?case by (simp add: system_stats_def window_nil)
next
  case (snoc r rows)
  show ?case
  proof (cases "system_name r = k")
    case False
    then have "system_stats (rows @ [r]) k = system_stats rows k"
      by (simp add: system_stats_snoc add_record_def Let_def)
    with snoc False show ?thesis by (simp add: window_snoc)
  next
    case True
    have le: "healthy_count (of_system k rows) \<le> length (of_system k rows)"
      by (rule healthy_count_le)
    show ?thesis
    proof (cases "of_system k rows = []")
      case e: True
      then have "system_stats rows k = None" using snoc by simp
      then show ?thesis
        using True e
        by (simp add: system_stats_snoc add_record_def Let_def window_snoc window_nil
            healthy_count_def truthy_times_def error_messages_def)
    next
      case ne: False
      then have "system_stats rows k = Some \<lparr>total = length (of_system k rows),
                 healthy = healthy_count (of_system k rows),
                 unhealthy = length (of_system k rows) - healthy_count (of_system k rows),
                 errors = error_messages (of_system k rows),
                 response_times = truthy_times (of_system k rows)\<rparr>"
        using snoc by simp
      then show ?thesis
        using True le
        by (simp add: system_stats_snoc add_record_def Let_def window_snoc Suc_diff_le)
    qed
  qed
qed

lemma stats_of_window:
  assumes "system_stats window k = Some s"
  shows "of_system k window \<noteq> []"
    and "s = \<lparr>total = length (of_system k window),
              healthy = healthy_count (of_system k window),
              unhealthy = length (of_system k window) - healthy_count (of_system k window),
              errors = error_messages (of_system k window),
              response_times = truthy_times (of_system k window)\<rparr>"
proof -
  show ne: "of_system k window \<noteq> []"
    using assms system_stats_char [of window k] by (auto split: if_splits)
  show "s = \<lparr>total = length (of_system k window),
              healthy = healthy_count (of_system k window),
              unhealthy = length (of_system k window) - healthy_count (of_system k window),
              errors = error_messages (of_system k window),
              response_times = truthy_times (of_system k window)\<rparr>"
    using assms ne system_stats_char [of window k] by simp
qed

lemma summarize_window:
  assumes "system_stats window k = Some s"
  shows "uptime (summarize s)
       = real (healthy_count (of_system k window)) / real (length (of_system k window)) * 100"
    and "avg_response (summarize s)
       = (if truthy_times (of_system k window) = [] then 0
          else sum_list (truthy_times (of_system k window))
                 / real (length (truthy_times (of_system k window))))"
    and "recent_errors (summarize s)
       = (if error_messages (of_system k window) = [] then None
          else Some (set (take 3 (error_messages (of_system k window)))))"
  using stats_of_window [OF assms] by (simp_all add: summarize_def)

lemma performance_entry_window:
  assumes "rows \<noteq> []"
  shows "\<exists>m. performance_entry info rows = Some m
     \<and> total_checks m = length rows \<and> healthy_checks m = healthy_count rows
     \<and> uptime_24h m = py_round (real (healthy_count rows) / real (length rows) * 100) 2
     \<and> avg_response_time m =
         (if truthy_times rows = [] then None
          else Some (py_round (sum_list (truthy_times rows) / real (length (truthy_times rows))) 2))
     \<and> min_response_time m =
         (if truthy_times rows = [] then None else Some (py_round (Min (set (truthy_times rows))) 2))
     \<and> max_response_time m =
         (if truthy_times rows = [] then None else Some (py_round (Max (set (truthy_times rows))) 2))"
  using assms by (simp add: performance_entry_def Let_def truthy_times_def healthy_count_def)



lemma py_round_values:
  "py_round (200 / 3) 2 = 6667 / 100"
  "py_round 150 2 = 150"
  "py_round 100 2 = 100"
  "py_round 200 2 = 200"
  by (simp_all add: py_round_def round_half_even_def Let_def)










lemma truthy_times_zero:
  "response_time_ms r0 = Some 0 \<Longrightarrow> truthy_times (xs @ r0 # ys) = truthy_times (xs @ ys)"
  by (simp add: truthy_times_def truthy_num_def)

lemma of_system_zero:
  "response_time_ms r0 = Some 0 \<Longrightarrow>
   truthy_times (of_system k (xs @ r0 # ys)) = truthy_times (of_system k (xs @ ys))"
  by (simp add: of_system_def truthy_times_def truthy_num_def)

lemma truthy_times_nonzero: "0 \<notin> set (truthy_times rows)"
  by (auto simp: truthy_times_def truthy_num_def split: option.splits)

text \<open>
  Claim C10. In both statistics paths a row whose \<^verbatim>\<open>response_time_ms\<close> is 0 counts as
  having no response time: the response times collected for the summary, and the average,
  minimum and maximum of the performance endpoint, are those of the window without that
  row, and 0 is never among the collected response times.
\<close>

theorem zero_latency_is_left_out:
  assumes "response_time_ms r0 = Some 0"
  shows "(system_stats (xs @ r0 # ys) k = Some s \<longrightarrow>
            response_times s = truthy_times (of_system k (xs @ ys))
          \<and> 0 \<notin> set (response_times s)
          \<and> avg_response (summarize s)
              = (if truthy_times (of_system k (xs @ ys)) = [] then 0
                 else sum_list (truthy_times (of_system k (xs @ ys)))
                        / real (length (truthy_times (of_system k (xs @ ys))))))
       \<and> (\<exists>m. performance_entry info (xs @ r0 # ys) = Some m
            \<and> avg_response_time m =
                (if truthy_times (xs @ ys) = [] then None
                 else Some (py_round (sum_list (truthy_times (xs @ ys))
                                        / real (length (truthy_times (xs @ ys)))) 2))
            \<and> min_response_time m =
                (if truthy_times (xs @ ys) = [] then None
                 else Some (py_round (Min (set (truthy_times (xs @ ys)))) 2))
            \<and> max_response_time m =
                (if truthy_times (xs @ ys) = [] then None
                 else Some (py_round (Max (set (truthy_times (xs @ ys)))) 2)))"
proof (intro conjI impI)
  assume a: "system_stats (xs @ r0 # ys) k = Some s"
  from stats_of_window(2) [OF a]
  show rt: "response_times s = truthy_times (of_system k (xs @ ys))"
    by (simp add: of_system_zero [OF assms])
  show "0 \<notin> set (response_times s)" unfolding rt by (rule truthy_times_nonzero)
  show "avg_response (summarize s)
              = (if truthy_times (of_system k (xs @ ys)) = [] then 0
                 else sum_list (truthy_times (of_system k (xs @ ys)))
                        / real (length (truthy_times (of_system k (xs @ ys)))))"
    using summarize_window(2) [OF a] by (simp add: of_system_zero [OF assms])
next
  have "xs @ r0 # ys \<noteq> []" by simp
  from performance_entry_window [OF this, of info]
  show "\<exists>m. performance_entry info (xs @ r0 # ys) = Some m
            \<and> avg_response_time m =
                (if truthy_times (xs @ ys) = [] then None
                 else Some (py_round (sum_list (truthy_times (xs @ ys))
                                        / real (length (truthy_times (xs @ ys)))) 2))
            \<and> min_response_time m =
                (if truthy_times (xs @ ys) = [] then None
                 else Some (py_round (Min (set (truthy_times (xs @ ys)))) 2))
            \<and> max_response_time m =
                (if truthy_times (xs @ ys) = [] then None
                 else Some (py_round (Max (set (truthy_times (xs @ ys)))) 2))"
    unfolding truthy_times_zero [OF assms] by blast
qed

lemma zero_window_facts:
  "response_time_ms zero_row = Some 0"
  "of_system ''story_grid_pro'' [zero_row, fast_row] = [zero_row, fast_row]"
  "of_system ''story_grid_pro'' [fast_row] = [fast_row]"
  "truthy_times [fast_row] = [100]"
  "healthy_count [zero_row, fast_row] = 2"
  "error_messages [zero_row, fast_row] = []"
  "truthy_times [zero_row, fast_row] = [100]"
  by (simp_all add: zero_row_def fast_row_def sample_row_def of_system_def healthy_count_def
      truthy_times_def error_messages_def truthy_num_def truthy_str_def)

text \<open>
  The theorem for C10 at a window with a 0 ms result and a 100 ms result: average, minimum
  and maximum are 100.
\<close>

theorem zero_latency_is_left_out_witness:
  "response_times \<lparr>total = 2, healthy = 2, unhealthy = 0, errors = [], response_times = [100]\<rparr> = [100]
   \<and> system_stats [zero_row, fast_row] ''story_grid_pro''
       = Some \<lparr>total = 2, healthy = 2, unhealthy = 0, errors = [], response_times = [100]\<rparr>
   \<and> avg_response (summarize \<lparr>total = 2, healthy = 2, unhealthy = 0, errors = [],
         response_times = [100]\<rparr>) = 100
   \<and> (\<exists>m. performance_entry story_grid_pro [zero_row, fast_row] = Some m
        \<and> avg_response_time m = Some 100 \<and> min_response_time m = Some 100
        \<and> max_response_time m = Some 100)"
proof -
  have st: "system_stats [zero_row, fast_row] ''story_grid_pro''
       = Some \<lparr>total = 2, healthy = 2, unhealthy = 0, errors = [], response_times = [100]\<rparr>"
    by (simp add: system_stats_char zero_window_facts)
  show ?thesis
    using zero_latency_is_left_out [where ?r0.0=zero_row and xs="[]" and ys="[fast_row]"
        and k="''story_grid_pro''" and info=story_grid_pro
        and s="\<lparr>total = 2, healthy = 2, unhealthy = 0, errors = [], response_times = [100]\<rparr>"]
      st
    by (simp add: zero_window_facts py_round_values)
qed


section \<open>Properties of the retention manager\<close>

lemma cleanup_system_ok:
  "system_health (snd (cleanup_system (\<lambda>n. False) k st)) =
     (if 1000 < length (filter (\<lambda>r. system_name r = k) (system_health st)) then
        (case take 1 (drop 999 (order_created_at_desc
                 (filter (\<lambda>r. system_name r = k) (system_health st)))) of
           [] \<Rightarrow> system_health st
         | r # _ \<Rightarrow> filter (\<lambda>x. \<not> (system_name x = k \<and> row_id x < row_id r)) (system_health st))
      else system_health st)"
  by (simp add: cleanup_system_def store_call_def Let_def split: list.splits)

lemma foldr_insort_above:
  "\<forall>x\<in>set M. f l < f x \<Longrightarrow>
   foldr (insort_key f) M (l # ys) = l # foldr (insort_key f) M ys"
  by (induction M) (auto simp: not_le)

lemma sort_key_late_row:
  fixes f :: "'a \<Rightarrow> nat"
  assumes "\<forall>x\<in>set M. f l < f x" and "sorted (map f M)"
  shows "sort_key f (M @ [l]) = l # M"
proof -
  have "sort_key f (M @ [l]) = foldr (insort_key f) M [l]"
    by (simp add: sort_key_def)
  also have "\<dots> = l # foldr (insort_key f) M []"
    by (rule foldr_insort_above) (rule assms(1))
  also have "foldr (insort_key f) M [] = sort_key f M" by (simp add: sort_key_def)
  also have "sort_key f M = M" by (rule sort_key_id_if_sorted) (rule assms(2))
  finally show ?thesis .
qed

lemma take1_drop: "n < length xs \<Longrightarrow> take 1 (drop n xs) = [xs ! n]"
  by (simp add: take_Suc_conv_app_nth)

lemma filter_from_nth:
  fixes g :: "'a \<Rightarrow> int"
  assumes "sorted_wrt (<) (map g M)" and "j < length M"
  shows "filter (\<lambda>x. \<not> g x < g (M ! j)) M = drop j M"
proof -
  have lt: "\<And>a b. a < b \<Longrightarrow> b < length M \<Longrightarrow> g (M ! a) < g (M ! b)"
    using sorted_wrt_nth_less [OF assms(1)] by simp
  have 1: "\<forall>x\<in>set (take j M). \<not> \<not> g x < g (M ! j)"
  proof
    fix x assume "x \<in> set (take j M)"
    then obtain i where "i < length (take j M)" "x = take j M ! i"
      by (auto simp: in_set_conv_nth)
    then have "i < j" "x = M ! i" using assms(2) by simp_all
    with lt [of i j] assms(2) show "\<not> \<not> g x < g (M ! j)" by simp
  qed
  have 2: "\<forall>x\<in>set (drop j M). \<not> g x < g (M ! j)"
  proof
    fix x assume "x \<in> set (drop j M)"
    then obtain i where i: "i < length (drop j M)" "x = drop j M ! i"
      by (auto simp: in_set_conv_nth)
    then have x: "x = M ! (j + i)" and b: "j + i < length M" by simp_all
    show "\<not> g x < g (M ! j)"
    proof (cases "i = 0")
      case True
      with x show ?thesis by simp
    next
      case False
      then have "j < j + i" by simp
      from lt [OF this b] x show ?thesis by simp
    qed
  qed
  have "filter (\<lambda>x. \<not> g x < g (M ! j)) M
      = filter (\<lambda>x. \<not> g x < g (M ! j)) (take j M) @ filter (\<lambda>x. \<not> g x < g (M ! j)) (drop j M)"
    by (metis append_take_drop_id filter_append)
  also have "filter (\<lambda>x. \<not> g x < g (M ! j)) (take j M) = []"
    by (rule filter_False) (rule 1)
  also have "filter (\<lambda>x. \<not> g x < g (M ! j)) (drop j M) = drop j M"
    by (rule filter_True) (rule 2)
  finally show ?thesis by simp
qed

text \<open>The sweep over a table whose last row carries the earliest creation time.\<close>

lemma cleanup_with_late_row:
  assumes sys: "\<forall>x\<in>set (M @ [l]). system_name x = k"
    and early: "\<forall>x\<in>set M. created_at l < created_at x"
    and times: "sorted (map created_at M)"
    and ids: "sorted_wrt (<) (map row_id (M @ [l]))"
    and len: "1000 \<le> length M"
    and st: "system_health st = M @ [l]"
  shows "system_health (snd (cleanup_system (\<lambda>n. False) k st))
           = drop (length M - 1000) M @ [l]"
proof -
  let ?j = "length M - 1000"
  have f: "filter (\<lambda>r. system_name r = k) (M @ [l]) = M @ [l]"
    by (rule filter_True) (rule sys)
  have o: "order_created_at_desc (M @ [l]) = rev M @ [l]"
    by (simp add: order_created_at_desc_def sort_key_late_row [OF early times])
  have n: "999 < length (rev M @ [l])" using len by simp
  have "(rev M @ [l]) ! 999 = rev M ! 999" using len by (simp add: nth_append)
  also have "\<dots> = M ! (length M - Suc 999)" using len by (simp add: rev_nth)
  also have "length M - Suc 999 = ?j" by simp
  finally have c: "take 1 (drop 999 (rev M @ [l])) = [M ! ?j]"
    using take1_drop [OF n] by simp
  have j: "?j < length (M @ [l])" using len by simp
  have nth: "(M @ [l]) ! ?j = M ! ?j" using len by (simp add: nth_append)
  have k: "filter (\<lambda>x. \<not> (system_name x = k \<and> row_id x < row_id (M ! ?j))) (M @ [l])
      = filter (\<lambda>x. \<not> row_id x < row_id ((M @ [l]) ! ?j)) (M @ [l])"
    using sys nth by (intro filter_cong) auto
  have "system_health (snd (cleanup_system (\<lambda>n. False) k st))
      = filter (\<lambda>x. \<not> (system_name x = k \<and> row_id x < row_id (M ! ?j))) (M @ [l])"
  proof -
    have big: "1000 < length (M @ [l])" using len by simp
    show ?thesis
      unfolding cleanup_system_ok st f o c
      by (simp only: big if_True list.case)
  qed
  also have "\<dots> = drop ?j (M @ [l])"
    unfolding k by (rule filter_from_nth [OF ids j])
  also have "\<dots> = drop ?j M @ [l]" using len by simp
  finally show ?thesis .
qed

text \<open>The sweep over a table in creation order, identities and creation times both
  increasing: the newest 1000 rows stay.\<close>

lemma cleanup_in_creation_order:
  assumes sys: "\<forall>x\<in>set T. system_name x = k"
    and times: "sorted_wrt (<) (map created_at T)"
    and ids: "sorted_wrt (<) (map row_id T)"
    and len: "1000 < length T"
    and st: "system_health st = T"
  shows "system_health (snd (cleanup_system (\<lambda>n. False) k st)) = drop (length T - 1000) T"
proof -
  let ?j = "length T - 1000"
  have f: "filter (\<lambda>r. system_name r = k) T = T"
    by (rule filter_True) (rule sys)
  have "sorted (map created_at T)" using times by (simp add: strict_sorted_iff)
  then have o: "order_created_at_desc T = rev T"
    by (simp add: order_created_at_desc_def sort_key_id_if_sorted)
  have n: "999 < length (rev T)" using len by simp
  have "rev T ! 999 = T ! (length T - Suc 999)" using len by (simp add: rev_nth)
  also have "length T - Suc 999 = ?j" by simp
  finally have c: "take 1 (drop 999 (rev T)) = [T ! ?j]"
    using take1_drop [OF n] by simp
  have j: "?j < length T" using len by simp
  have k: "filter (\<lambda>x. \<not> (system_name x = k \<and> row_id x < row_id (T ! ?j))) T
      = filter (\<lambda>x. \<not> row_id x < row_id (T ! ?j)) T"
    using sys by (intro filter_cong) auto
  have "system_health (snd (cleanup_system (\<lambda>n. False) k st))
      = filter (\<lambda>x. \<not> (system_name x = k \<and> row_id x < row_id (T ! ?j))) T"
    unfolding cleanup_system_ok st f o c
    by (simp only: len if_True list.case)
  also have "\<dots> = drop ?j T"
    unfolding k by (rule filter_from_nth [OF ids j])
  finally show ?thesis .
qed

lemma cleanup_at_most_1000:
  assumes "length (filter (\<lambda>r. system_name r = k) (system_health st)) \<le> 1000"
  shows "system_health (snd (cleanup_system (\<lambda>n. False) k st)) = system_health st"
  using assms by (simp add: cleanup_system_ok)

lemma cleanup_system_succeeds: "fst (cleanup_system (\<lambda>n. False) k st)"
  by (simp add: cleanup_system_def store_call_def Let_def split: list.splits)

lemma cleanup_keys_other:
  assumes "\<forall>k\<in>set ks. filter (\<lambda>r. system_name r = k) (system_health st) = []"
  shows "system_health (cleanup_keys (\<lambda>n. False) ks st) = system_health st"
  using assms
proof (induction ks arbitrary: st)
  case Nil
  show ?case by simp
next
  case (Cons k ks)
  obtain ok st' where c: "cleanup_system (\<lambda>n. False) k st = (ok, st')"
    by (cases "cleanup_system (\<lambda>n. False) k st")
  have ok: "ok" using cleanup_system_succeeds [of k st] c by simp
  have "length (filter (\<lambda>r. system_name r = k) (system_health st)) \<le> 1000"
    using Cons.prems by simp
  from cleanup_at_most_1000 [OF this] c have same: "system_health st' = system_health st"
    by simp
  have "system_health (cleanup_keys (\<lambda>n. False) ks st') = system_health st'"
    by (rule Cons.IH) (use Cons.prems same in simp)
  with c ok same show ?case by simp
qed

lemma skewed_parts:
  "\<forall>x\<in>set (map (\<lambda>i. plain_row i i) [1..<1500] @ [plain_row 1500 0]).
      system_name x = ''story_grid_pro''"
  "\<forall>x\<in>set (map (\<lambda>i. plain_row i i) [1..<1500]).
      created_at (plain_row 1500 0) < created_at x"
  "sorted (map created_at (map (\<lambda>i. plain_row i i) [1..<1500]))"
  "1000 \<le> length (map (\<lambda>i. plain_row i i) [1..<1500])"
  "length (map (\<lambda>i. plain_row i i) [1..<1500]) - 1000 = 499"
  by (auto simp add: plain_row_def sample_row_def o_def simp del: upt_rec_numeral)

lemma skewed_ids:
  "sorted_wrt (<) (map row_id (map (\<lambda>i. plain_row i i) [1..<1500] @ [plain_row 1500 0]))"
proof -
  have "sorted_wrt (\<lambda>x y. int x < int y) [1..<1500]"
    by (rule sorted_wrt_mono_rel [OF _ sorted_wrt_upt]) simp
  then show ?thesis
    by (auto simp add: plain_row_def sample_row_def o_def sorted_wrt_append sorted_wrt_map
        simp del: upt_rec_numeral)
qed

lemma skewed_drop:
  "drop 499 (map (\<lambda>i. plain_row i i) [1..<1500]) = map (\<lambda>i. plain_row i i) [500..<1500]"
  by (simp add: drop_map del: upt_rec_numeral)

lemma skewed_sweep:
  "system_health (snd (cleanup_system (\<lambda>n. False) ''story_grid_pro'' skewed_store))
     = map (\<lambda>i. plain_row i i) [500..<1500] @ [plain_row 1500 0]"
proof -
  have st: "system_health skewed_store = map (\<lambda>i. plain_row i i) [1..<1500] @ [plain_row 1500 0]"
    by (simp add: skewed_store_def skewed_table_def del: upt_rec_numeral)
  show ?thesis
    using cleanup_with_late_row [OF skewed_parts(1) skewed_parts(2) skewed_parts(3) skewed_ids
        skewed_parts(4) st]
    by (simp only: skewed_parts(5) skewed_drop)
qed

text \<open>
  For 1500 rows of a system whose creation times increase with their identities, one sweep
  leaves the newest 1000, each with an identity above that of every deleted row, and a
  second sweep changes nothing.
\<close>

lemma retention_in_creation_order:
  assumes sys: "\<forall>x\<in>set T. system_name x = k"
    and times: "sorted_wrt (<) (map created_at T)"
    and ids: "sorted_wrt (<) (map row_id T)"
    and len: "length T = 1500"
    and st: "system_health st = T"
  shows "system_health (snd (cleanup_system (\<lambda>n. False) k st)) = drop 500 T"
    and "length (system_health (snd (cleanup_system (\<lambda>n. False) k st))) = 1000"
    and "\<forall>x\<in>set (drop 500 T). \<forall>y\<in>set (take 500 T). row_id y < row_id x"
    and "system_health (snd (cleanup_system (\<lambda>n. False) k (snd (cleanup_system (\<lambda>n. False) k st))))
           = system_health (snd (cleanup_system (\<lambda>n. False) k st))"
proof -
  have big: "1000 < length T" using len by simp
  show 1: "system_health (snd (cleanup_system (\<lambda>n. False) k st)) = drop 500 T"
    using cleanup_in_creation_order [OF sys times ids big st] len by simp
  show 2: "length (system_health (snd (cleanup_system (\<lambda>n. False) k st))) = 1000"
    unfolding 1 using len by simp
  have "sorted_wrt (<) (map row_id (take 500 T @ drop 500 T))" using ids by simp
  then show "\<forall>x\<in>set (drop 500 T). \<forall>y\<in>set (take 500 T). row_id y < row_id x"
    unfolding map_append sorted_wrt_append by auto
  have "length (filter (\<lambda>r. system_name r = k)
          (system_health (snd (cleanup_system (\<lambda>n. False) k st)))) \<le> 1000"
    using 2 length_filter_le [of "\<lambda>r. system_name r = k"
        "system_health (snd (cleanup_system (\<lambda>n. False) k st))"] by simp
  then show "system_health (snd (cleanup_system (\<lambda>n. False) k (snd (cleanup_system (\<lambda>n. False) k st))))
           = system_health (snd (cleanup_system (\<lambda>n. False) k st))"
    by (rule cleanup_at_most_1000)
qed

lemma skewed_swept_parts:
  "\<forall>x\<in>set (map (\<lambda>i. plain_row i i) [500..<1500] @ [plain_row 1500 0]).
      system_name x = ''story_grid_pro''"
  "\<forall>x\<in>set (map (\<lambda>i. plain_row i i) [500..<1500]).
      created_at (plain_row 1500 0) < created_at x"
  "sorted (map created_at (map (\<lambda>i. plain_row i i) [500..<1500]))"
  "1000 \<le> length (map (\<lambda>i. plain_row i i) [500..<1500])"
  "length (map (\<lambda>i. plain_row i i) [500..<1500]) - 1000 = 0"
  by (auto simp add: plain_row_def sample_row_def o_def simp del: upt_rec_numeral)

lemma skewed_swept_ids:
  "sorted_wrt (<) (map row_id (map (\<lambda>i. plain_row i i) [500..<1500] @ [plain_row 1500 0]))"
proof -
  have "sorted_wrt (\<lambda>x y. int x < int y) [500..<1500]"
    by (rule sorted_wrt_mono_rel [OF _ sorted_wrt_upt]) simp
  then show ?thesis
    by (auto simp add: plain_row_def sample_row_def o_def sorted_wrt_append sorted_wrt_map
        simp del: upt_rec_numeral)
qed

lemma other_keys_have_no_rows:
  assumes "\<forall>x\<in>set rows. system_name x = ''story_grid_pro''"
  shows "\<forall>k\<in>set [''iaj_social_main'', ''agent_training'', ''video_processor'',
                  ''social_studio'', ''batch_studio''].
           filter (\<lambda>r. system_name r = k) rows = []"
  using assms by (auto simp: filter_empty_conv)

text \<open>
  Claim C5 says that of 1500 stored rows of a target one sweep leaves exactly the newest
  1000. The sweep reads its cutoff row at offset 999 of the rows ordered by
  \<^verbatim>\<open>created_at\<close> and deletes by \<^verbatim>\<open>id\<close>. On the table whose last row carries the earliest
  creation time, that cutoff row is the row 500: \<^verbatim>\<open>cleanup_old_data\<close> deletes the rows
  1 to 499 and leaves 1001 rows, the rows 500 to 1500, and a second sweep leaves the same
  1001 rows.
\<close>

theorem retention_leaves_1001_rows:
  "length skewed_table = 1500
   \<and> system_health (cleanup_old_data sample_env (\<lambda>n. False) skewed_store)
       = map (\<lambda>i. plain_row i i) [500..<1500] @ [plain_row 1500 0]
   \<and> length (system_health (cleanup_old_data sample_env (\<lambda>n. False) skewed_store)) = 1001
   \<and> system_health (cleanup_old_data sample_env (\<lambda>n. False)
         (cleanup_old_data sample_env (\<lambda>n. False) skewed_store))
       = system_health (cleanup_old_data sample_env (\<lambda>n. False) skewed_store)"
proof -
  let ?kept = "map (\<lambda>i. plain_row i i) [500..<1500] @ [plain_row 1500 0]"
  let ?others = "[''iaj_social_main'', ''agent_training'', ''video_processor'',
                  ''social_studio'', ''batch_studio'']"
  have keys: "map fst (SYSTEMS sample_env) = ''story_grid_pro'' # ?others"
    by (simp add: SYSTEMS_def)
  have run: "system_health (cleanup_old_data sample_env (\<lambda>n. False) st) = ?kept"
    if "system_health (snd (cleanup_system (\<lambda>n. False) ''story_grid_pro'' st)) = ?kept" for st
  proof -
    obtain ok st' where c: "cleanup_system (\<lambda>n. False) ''story_grid_pro'' st = (ok, st')"
      by (cases "cleanup_system (\<lambda>n. False) ''story_grid_pro'' st")
    have ok: "ok" using cleanup_system_succeeds [of "''story_grid_pro''" st] c by simp
    have k: "system_health st' = ?kept" using that c by simp
    have "\<forall>k\<in>set ?others. filter (\<lambda>r. system_name r = k) (system_health st') = []"
      unfolding k by (rule other_keys_have_no_rows) (rule skewed_swept_parts(1))
    then have "system_health (cleanup_keys (\<lambda>n. False) ?others st') = system_health st'"
      by (rule cleanup_keys_other)
    with c ok k show ?thesis
      by (simp add: cleanup_old_data_def keys)
  qed
  have first: "system_health (cleanup_old_data sample_env (\<lambda>n. False) skewed_store) = ?kept"
    by (rule run) (rule skewed_sweep)
  have "system_health (snd (cleanup_system (\<lambda>n. False) ''story_grid_pro''
          (cleanup_old_data sample_env (\<lambda>n. False) skewed_store))) = ?kept"
    using cleanup_with_late_row [OF skewed_swept_parts(1) skewed_swept_parts(2)
        skewed_swept_parts(3) skewed_swept_ids skewed_swept_parts(4) first]
    by (simp only: skewed_swept_parts(5) drop_0)
  then have second: "system_health (cleanup_old_data sample_env (\<lambda>n. False)
         (cleanup_old_data sample_env (\<lambda>n. False) skewed_store)) = ?kept"
    by (rule run)
  have len: "length skewed_table = 1500"
    by (simp add: skewed_table_def del: upt_rec_numeral)
  have len2: "length ?kept = 1001" by (simp del: upt_rec_numeral)
  show ?thesis
    unfolding second first using len len2 by (simp only: simp_thms)
qed

end
